theory Spec2Isabelle
  imports Complex_Main "HOL-Library.Char_ord" "HOL-Library.List_Lexorder" "HOL-Library.Product_Lexorder"
begin

section \<open>JavaScript values used by the handlers\<close>

text \<open>
  The handlers are Express callbacks. Each one is modelled as a function from what it
  reads (request, environment, table, external services) to the response it sends and,
  where it writes, the new table. External services (the bcrypt comparison, the URL
  parser, the S3 presigner) are parameters of the model.

  Message texts are carried without the accents of the Spanish originals.
  Numbers are the JavaScript numbers that the handlers can produce: the doubles with an
  integer value, and the three non-finite values. An arithmetic result is rounded to the
  nearest double (\<open>to_double\<close> below); the sign of zero is not modelled.
\<close>

datatype jsnum = Fin int | PosInf | NegInf | NaN

datatype json =
    JNull
  | JBool bool
  | JNum jsnum
  | JStr string
  | JArr "json list"
  | JObj "(string \<times> json) list"

text \<open>Truthiness of a value that is a string or \<open>undefined\<close>: only a non-empty string is truthy.\<close>

definition truthy :: "string option \<Rightarrow> bool" where
  "truthy v = (case v of None \<Rightarrow> False | Some s \<Rightarrow> s \<noteq> [])"

text \<open>\<open>a || b\<close> on an optional string with a string default.\<close>

definition or_default :: "string option \<Rightarrow> string \<Rightarrow> string" where
  "or_default v d = (case v of None \<Rightarrow> d | Some s \<Rightarrow> if s = [] then d else s)"

text \<open>A field of a JSON object, by key (the first binding wins).\<close>

definition json_field :: "json \<Rightarrow> string \<Rightarrow> json option" where
  "json_field j k = (case j of JObj kvs \<Rightarrow> map_of kvs k | _ \<Rightarrow> None)"

section \<open>Process environment and HTTP messages\<close>

record env =
  NODE_ENV :: "string option"
  FRONTEND_URL :: "string option"
  BACKEND_URL :: "string option"
  ACCESS_CODE_HASH :: "string option"
  S3_BUCKET :: "string option"

text \<open>The options object passed to \<open>res.cookie\<close> and \<open>res.clearCookie\<close>; a key that the
  object literal does not have is \<open>None\<close>.\<close>

record cookie_options =
  httpOnly :: "bool option"
  secure :: "bool option"
  sameSite :: "string option"
  path :: "string option"
  maxAge :: "int option"

datatype cookie_op =
    SetCookie string string cookie_options
  | ClearCookie string cookie_options

record response =
  status :: nat
  body :: json
  cookie_ops :: "cookie_op list"

text \<open>\<open>res.status(c).json(b)\<close>; \<open>res.json(b)\<close> alone answers 200.\<close>

definition respond :: "nat \<Rightarrow> json \<Rightarrow> response" where
  "respond c b = \<lparr>status = c, body = b, cookie_ops = []\<rparr>"

text \<open>\<open>req.cookies\<close> is \<open>None\<close> when no cookie parser filled it; \<open>req.cookies?.auth_session\<close>
  is then \<open>undefined\<close>.\<close>

record request =
  cookies :: "(string \<times> string) list option"
  access_code :: "string option"

definition auth_session :: "request \<Rightarrow> string option" where
  "auth_session req = (case cookies req of None \<Rightarrow> None | Some cs \<Rightarrow> map_of cs ''auth_session'')"

section \<open>Credential verifier\<close>

text \<open>\<open>bcrypt.compare(data, hash, callback)\<close> calls back with \<open>(err, isMatch)\<close>: \<open>Inl\<close> is a
  call with \<open>err\<close> set, \<open>Inr b\<close> a call with \<open>isMatch = b\<close>. The comparison is a
  parameter of every handler that uses it.\<close>

datatype compare_error = CompareError

type_synonym comparer = "string \<Rightarrow> string \<Rightarrow> compare_error + bool"

section \<open>Access gate: middleware/auth.ts\<close>

datatype gate_result = Respond response | Next

definition requireAuth :: "comparer \<Rightarrow> env \<Rightarrow> request \<Rightarrow> gate_result" where
  "requireAuth compare e req =
    (let sessionToken = auth_session req in
     if \<not> truthy sessionToken then
       Respond (respond 401 (JObj [(''success'', JBool False),
         (''message'', JStr ''No autorizado. Por favor, inicia sesion.'')]))
     else
       let accessCodeHash = ACCESS_CODE_HASH e in
       if \<not> truthy accessCodeHash then
         Respond (respond 500 (JObj [(''success'', JBool False),
           (''message'', JStr ''Error de configuracion del servidor'')]))
       else
         (case compare (the sessionToken) (the accessCodeHash) of
            Inl err \<Rightarrow>
              Respond (respond 500 (JObj [(''success'', JBool False),
                (''message'', JStr ''Error al verificar autenticacion'')]))
          | Inr isMatch \<Rightarrow>
              if \<not> isMatch then
                Respond (respond 401 (JObj [(''success'', JBool False),
                  (''message'', JStr ''Sesion invalida. Por favor, inicia sesion nuevamente.'')]))
              else Next))"

text \<open>The gate as the specification words it, with four branches: no cookie, no stored hash,
  a cookie that does not verify, a cookie that verifies. It returns the status sent, or \<open>None\<close>
  when the request proceeds. A cookie verifies when the comparison reports a match.\<close>

definition gate_spec :: "comparer \<Rightarrow> env \<Rightarrow> request \<Rightarrow> nat option" where
  "gate_spec compare e req =
    (if \<not> truthy (auth_session req) then Some 401
     else if \<not> truthy (ACCESS_CODE_HASH e) then Some 500
     else if compare (the (auth_session req)) (the (ACCESS_CODE_HASH e)) = Inr True then None
     else Some 401)"

definition gate_status :: "gate_result \<Rightarrow> nat option" where
  "gate_status r = (case r of Respond x \<Rightarrow> Some (status x) | Next \<Rightarrow> None)"

section \<open>Cookie attributes: utils/cookieConfig.ts\<close>

text \<open>\<open>s.includes(t)\<close>.\<close>

fun is_prefix :: "string \<Rightarrow> string \<Rightarrow> bool" where
  "is_prefix [] t = True"
| "is_prefix (c # cs) [] = False"
| "is_prefix (c # cs) (d # ds) = (c = d \<and> is_prefix cs ds)"

fun includes_str :: "string \<Rightarrow> string \<Rightarrow> bool" where
  "includes_str [] t = (t = [])"
| "includes_str (c # cs) t = (is_prefix t (c # cs) \<or> includes_str cs t)"

text \<open>\<open>new URL(url).hostname\<close> is a parameter: \<open>None\<close> is the constructor throwing, which
  \<open>getDomain\<close> catches, returning the text it was given.\<close>

type_synonym url_parser = "string \<Rightarrow> string option"

definition getDomain :: "url_parser \<Rightarrow> string \<Rightarrow> string" where
  "getDomain hostname url = (case hostname url of Some h \<Rightarrow> h | None \<Rightarrow> url)"

definition getCookieConfig :: "url_parser \<Rightarrow> env \<Rightarrow> cookie_options" where
  "getCookieConfig hostname e =
    (let isProduction = (NODE_ENV e = Some ''production'');
         frontendUrl = or_default (FRONTEND_URL e) ''http://localhost:3000'';
         backendUrl = or_default (BACKEND_URL e) ''http://localhost:3001'';
         frontendDomain = getDomain hostname frontendUrl;
         backendDomain = getDomain hostname backendUrl;
         areDifferentDomains = (frontendDomain \<noteq> backendDomain);
         useCrossSite = (isProduction \<and> (areDifferentDomains \<or>
           (\<not> includes_str frontendUrl ''localhost'' \<and> \<not> includes_str backendUrl ''localhost'')));
         sameSiteValue = (if useCrossSite then ''none'' else ''lax'');
         secureValue = (if sameSiteValue = ''none'' then True else isProduction)
     in \<lparr>httpOnly = Some True, secure = Some secureValue, sameSite = Some sameSiteValue,
         path = Some ''/'', maxAge = Some (24 * 60 * 60 * 1000)\<rparr>)"

section \<open>Authentication handlers: controllers/authController.ts\<close>

text \<open>The repository holds two texts of this controller. The first is the file of that name:
  it writes the cookie attributes inline and clears the cookie with no attributes.
  Nothing in the bodies of \<open>verifyAccessCode\<close> and \<open>logout\<close> throws, so their \<open>catch\<close> clauses
  (a 500 with the error's message) have no branch here.\<close>

definition no_options :: cookie_options where
  "no_options = \<lparr>httpOnly = None, secure = None, sameSite = None, path = None, maxAge = None\<rparr>"

definition verifyAccessCode :: "comparer \<Rightarrow> env \<Rightarrow> request \<Rightarrow> response" where
  "verifyAccessCode compare e req =
    (if \<not> truthy (access_code req) then
       respond 400 (JObj [(''success'', JBool False),
         (''message'', JStr ''El codigo de acceso es requerido'')])
     else if \<not> truthy (ACCESS_CODE_HASH e) then
       respond 500 (JObj [(''success'', JBool False),
         (''message'', JStr ''Error de configuracion del servidor'')])
     else
       (case compare (the (access_code req)) (the (ACCESS_CODE_HASH e)) of
          Inl err \<Rightarrow>
            respond 500 (JObj [(''success'', JBool False),
              (''message'', JStr ''Error al verificar codigo de acceso'')])
        | Inr isMatch \<Rightarrow>
            if \<not> isMatch then
              respond 401 (JObj [(''success'', JBool False),
                (''message'', JStr ''Codigo de acceso incorrecto'')])
            else
              \<lparr>status = 200,
               body = JObj [(''success'', JBool True), (''message'', JStr ''Autenticacion exitosa'')],
               cookie_ops = [SetCookie ''auth_session'' (the (access_code req))
                 \<lparr>httpOnly = Some True, secure = Some (NODE_ENV e = Some ''production''),
                  sameSite = Some ''strict'', path = None,
                  maxAge = Some (24 * 60 * 60 * 1000)\<rparr>]\<rparr>))"

definition logout :: "env \<Rightarrow> request \<Rightarrow> response" where
  "logout e req =
    \<lparr>status = 200,
     body = JObj [(''success'', JBool True), (''message'', JStr ''Sesion cerrada exitosamente'')],
     cookie_ops = [ClearCookie ''auth_session'' no_options]\<rparr>"

definition not_authenticated :: response where
  "not_authenticated = respond 200 (JObj [(''success'', JBool False), (''authenticated'', JBool False)])"

text \<open>\<open>checkAuth\<close> wraps its body in \<open>try\<close>/\<open>catch\<close>; the body is a value \<open>exception + response\<close>
  and the handler of the \<open>catch\<close> clause is \<open>checkAuth_catch\<close>.\<close>

datatype exception = Exception (error_name: string) (error_message: string)

definition checkAuth_try :: "comparer \<Rightarrow> env \<Rightarrow> request \<Rightarrow> exception + response" where
  "checkAuth_try compare e req =
    (let sessionToken = auth_session req; accessCodeHash = ACCESS_CODE_HASH e in
     if \<not> truthy sessionToken \<or> \<not> truthy accessCodeHash then Inr not_authenticated
     else
       (case compare (the sessionToken) (the accessCodeHash) of
          Inl err \<Rightarrow> Inr not_authenticated
        | Inr isMatch \<Rightarrow>
            if \<not> isMatch then Inr not_authenticated
            else Inr (respond 200 (JObj [(''success'', JBool True), (''authenticated'', JBool True)]))))"

definition checkAuth_catch :: "exception + response \<Rightarrow> response" where
  "checkAuth_catch r = (case r of Inl error \<Rightarrow> not_authenticated | Inr x \<Rightarrow> x)"

definition checkAuth :: "comparer \<Rightarrow> env \<Rightarrow> request \<Rightarrow> response" where
  "checkAuth compare e req = checkAuth_catch (checkAuth_try compare e req)"

text \<open>The second text of the controller takes the attributes from \<open>getCookieConfig\<close>, at login
  and at logout. Its \<open>checkAuth\<close> differs from the first in logging and in two CORS
  headers, which are not part of \<open>response\<close>.\<close>

definition verifyAccessCode_cfg :: "url_parser \<Rightarrow> comparer \<Rightarrow> env \<Rightarrow> request \<Rightarrow> response" where
  "verifyAccessCode_cfg hostname compare e req =
    (if \<not> truthy (access_code req) then
       respond 400 (JObj [(''success'', JBool False),
         (''message'', JStr ''El codigo de acceso es requerido'')])
     else if \<not> truthy (ACCESS_CODE_HASH e) then
       respond 500 (JObj [(''success'', JBool False),
         (''message'', JStr ''Error de configuracion del servidor'')])
     else
       (case compare (the (access_code req)) (the (ACCESS_CODE_HASH e)) of
          Inl err \<Rightarrow>
            respond 500 (JObj [(''success'', JBool False),
              (''message'', JStr ''Error al verificar codigo de acceso'')])
        | Inr isMatch \<Rightarrow>
            if \<not> isMatch then
              respond 401 (JObj [(''success'', JBool False),
                (''message'', JStr ''Codigo de acceso incorrecto'')])
            else
              \<lparr>status = 200,
               body = JObj [(''success'', JBool True), (''message'', JStr ''Autenticacion exitosa'')],
               cookie_ops = [SetCookie ''auth_session'' (the (access_code req))
                 (getCookieConfig hostname e)]\<rparr>))"

definition logout_cfg :: "url_parser \<Rightarrow> env \<Rightarrow> request \<Rightarrow> response" where
  "logout_cfg hostname e req =
    \<lparr>status = 200,
     body = JObj [(''success'', JBool True), (''message'', JStr ''Sesion cerrada exitosamente'')],
     cookie_ops = [ClearCookie ''auth_session'' (getCookieConfig hostname e)]\<rparr>"

text \<open>The attributes a response sets, and the attributes it clears with.\<close>

fun set_attributes :: "cookie_op list \<Rightarrow> cookie_options option" where
  "set_attributes [] = None"
| "set_attributes (SetCookie n v opts # ops) = Some opts"
| "set_attributes (ClearCookie n opts # ops) = set_attributes ops"

fun clear_attributes :: "cookie_op list \<Rightarrow> cookie_options option" where
  "clear_attributes [] = None"
| "clear_attributes (ClearCookie n opts # ops) = Some opts"
| "clear_attributes (SetCookie n v opts # ops) = clear_attributes ops"

section \<open>Image URL issuer: services/s3Service.ts\<close>

text \<open>\<open>getSignedUrl(s3Client, new GetObjectCommand({Bucket, Key}), {expiresIn})\<close> is a
  parameter: \<open>Inl\<close> is the awaited call throwing. Each call is recorded, so that a run which
  never reaches the object-store client has an empty record.\<close>

record s3_call =
  Bucket :: string
  Key :: string
  expiresIn :: int

type_synonym signer = "s3_call \<Rightarrow> exception + string"

definition BUCKET_NAME :: "env \<Rightarrow> string" where
  "BUCKET_NAME e = or_default (S3_BUCKET e) []"

text \<open>The result is the settled promise (\<open>Inl\<close> would be a rejection) and the calls made.\<close>

definition getPresignedImageUrl ::
  "signer \<Rightarrow> env \<Rightarrow> string option \<Rightarrow> int \<Rightarrow> (exception + string option) \<times> s3_call list" where
  "getPresignedImageUrl sign e imageFilename expires =
    (if \<not> truthy imageFilename \<or> BUCKET_NAME e = [] then (Inr None, [])
     else
       let command = \<lparr>Bucket = BUCKET_NAME e, Key = the imageFilename, expiresIn = expires\<rparr> in
       (case sign command of
          Inr presignedUrl \<Rightarrow> (Inr (Some presignedUrl), [command])
        | Inl error \<Rightarrow> (Inr None, [command])))"

section \<open>Product table: models/Product.ts\<close>

text \<open>A row of table \<open>products\<close>. Columns declared \<open>allowNull: true\<close> are optional. Column
  \<open>available\<close> is optional in the row type as well (the attribute is \<open>available?: boolean\<close>); that no
  stored row has it empty is an invariant of the operations, \<open>available_not_null\<close> below.
  The table is the list of its rows. The store is PostgreSQL (operator \<open>iLike\<close> exists only
  there); the lengths of its \<open>varchar\<close> columns are not modelled.\<close>

record product =
  pid :: nat
  ean :: string
  name :: "string option"
  original_name :: "string option"
  brand :: "string option"
  page :: "string option"
  url :: "string option"
  description :: "string option"
  category :: "string option"
  ptype :: "string option"
  variety :: "string option"
  image_filename :: "string option"
  available :: "bool option"
  comments :: "string option"

type_synonym table = "product list"

definition available_not_null :: "table \<Rightarrow> bool" where
  "available_not_null rows = list_all (\<lambda>p. available p \<noteq> None) rows"

definition json_opt :: "string option \<Rightarrow> json" where
  "json_opt v = (case v of None \<Rightarrow> JNull | Some s \<Rightarrow> JStr s)"

definition toJSON :: "product \<Rightarrow> (string \<times> json) list" where
  "toJSON p =
    [(''id'', JNum (Fin (int (pid p)))), (''ean'', JStr (ean p)), (''name'', json_opt (name p)),
     (''original_name'', json_opt (original_name p)), (''brand'', json_opt (brand p)),
     (''page'', json_opt (page p)), (''url'', json_opt (url p)),
     (''description'', json_opt (description p)), (''category'', json_opt (category p)),
     (''type'', json_opt (ptype p)), (''variety'', json_opt (variety p)),
     (''image_filename'', json_opt (image_filename p)),
     (''available'', (case available p of None \<Rightarrow> JNull | Some b \<Rightarrow> JBool b)),
     (''comments'', json_opt (comments p))]"

definition findByPk :: "nat \<Rightarrow> table \<Rightarrow> product option" where
  "findByPk i rows = find (\<lambda>p. pid p = i) rows"

text \<open>\<open>instance.update(values)\<close>: the row with the instance's key is replaced.\<close>

definition update_row :: "nat \<Rightarrow> (product \<Rightarrow> product) \<Rightarrow> table \<Rightarrow> table" where
  "update_row i f rows = map (\<lambda>p. if pid p = i then f p else p) rows"

section \<open>Product handlers: controllers/productController.ts\<close>

text \<open>\<open>productData.image_url = await getPresignedImageUrl(productData.image_filename ||
  'placeholder.webp')\<close>. A rejection would leave the handler's \<open>try\<close> block.\<close>

definition with_image_url :: "signer \<Rightarrow> env \<Rightarrow> product \<Rightarrow> exception + json" where
  "with_image_url sign e p =
    (let imageToUse = or_default (image_filename p) ''placeholder.webp'' in
     case fst (getPresignedImageUrl sign e (Some imageToUse) 3600) of
       Inl error \<Rightarrow> Inl error
     | Inr image_url \<Rightarrow> Inr (JObj (toJSON p @ [(''image_url'', json_opt image_url)])))"

text \<open>\<open>Promise.all(products.map(...))\<close>: the first rejection rejects the whole.\<close>

fun with_image_urls :: "signer \<Rightarrow> env \<Rightarrow> product list \<Rightarrow> exception + json list" where
  "with_image_urls sign e [] = Inr []"
| "with_image_urls sign e (p # ps) =
    (case with_image_url sign e p of
       Inl error \<Rightarrow> Inl error
     | Inr j \<Rightarrow> (case with_image_urls sign e ps of Inl error \<Rightarrow> Inl error | Inr js \<Rightarrow> Inr (j # js)))"

definition failure :: "string \<Rightarrow> exception \<Rightarrow> response" where
  "failure msg error = respond 500 (JObj [(''success'', JBool False), (''message'', JStr msg),
     (''error'', JStr (error_message error))])"

definition not_found :: response where
  "not_found = respond 404 (JObj [(''success'', JBool False), (''message'', JStr ''Producto no encontrado'')])"

subsection \<open>The store's \<open>ILIKE\<close>\<close>

text \<open>A pattern is read left to right: \<open>%\<close> stands for any text, \<open>_\<close> for any one
  character, and a backslash takes the character after it literally. A pattern that ends in a
  lone backslash is refused by the store (\<open>None\<close>). \<open>ILIKE\<close> compares without regard to
  letter case; case folding is modelled on the letters A to Z.\<close>

datatype like_token = AnyText | AnyChar | Lit char

fun like_tokens :: "string \<Rightarrow> like_token list option" where
  "like_tokens [] = Some []"
| "like_tokens (c # cs) =
    (if c = CHR 0x5C then
       (case cs of
          [] \<Rightarrow> None
        | d # ds \<Rightarrow> map_option ((#) (Lit d)) (like_tokens ds))
     else if c = CHR ''%'' then map_option ((#) AnyText) (like_tokens cs)
     else if c = CHR ''_'' then map_option ((#) AnyChar) (like_tokens cs)
     else map_option ((#) (Lit c)) (like_tokens cs))"

fun like_match :: "like_token list \<Rightarrow> string \<Rightarrow> bool" where
  "like_match [] s = (s = [])"
| "like_match (Lit c # ts) [] = False"
| "like_match (Lit c # ts) (d # ds) = (c = d \<and> like_match ts ds)"
| "like_match (AnyChar # ts) [] = False"
| "like_match (AnyChar # ts) (d # ds) = like_match ts ds"
| "like_match (AnyText # ts) [] = like_match ts []"
| "like_match (AnyText # ts) (d # ds) = (like_match ts (d # ds) \<or> like_match (AnyText # ts) ds)"

definition lower_char :: "char \<Rightarrow> char" where
  "lower_char c = (if CHR ''A'' \<le> c \<and> c \<le> CHR ''Z'' then char_of (of_char c + (32::nat)) else c)"

definition lower :: "string \<Rightarrow> string" where
  "lower s = map lower_char s"

text \<open>\<open>text ILIKE pattern\<close>; \<open>None\<close> is the store refusing the pattern.\<close>

definition ilike :: "string \<Rightarrow> string \<Rightarrow> bool option" where
  "ilike txt pattern = map_option (\<lambda>ts. like_match ts (lower txt)) (like_tokens (lower pattern))"

text \<open>A comparison with a \<open>NULL\<close> column is not true.\<close>

definition column_ilike :: "string option \<Rightarrow> string \<Rightarrow> bool option" where
  "column_ilike col pattern =
    (case col of None \<Rightarrow> map_option (\<lambda>ts. False) (like_tokens (lower pattern))
     | Some txt \<Rightarrow> ilike txt pattern)"

text \<open>Containment of a term in a text without regard to letter case, as the specification
  words the search.\<close>

definition contains_ci :: "string \<Rightarrow> string \<Rightarrow> bool" where
  "contains_ci txt t = includes_str (lower txt) (lower t)"

definition column_contains_ci :: "string option \<Rightarrow> string \<Rightarrow> bool" where
  "column_contains_ci col t = (case col of None \<Rightarrow> False | Some txt \<Rightarrow> contains_ci txt t)"

subsection \<open>List query\<close>

text \<open>The query string of \<open>GET /products\<close>; each parameter is a string or absent.\<close>

record list_query =
  q_brand :: "string option"
  q_category :: "string option"
  q_search :: "string option"
  q_available :: "string option"
  q_page :: "string option"
  q_limit :: "string option"

text \<open>The \<open>where\<close> clause, as the condition it puts on a row. \<open>None\<close> is the store refusing
  the statement.\<close>

definition where_brand :: "list_query \<Rightarrow> product \<Rightarrow> bool" where
  "where_brand q p =
    (if truthy (q_brand q) \<and> q_brand q \<noteq> Some ''all'' then brand p = q_brand q else True)"

definition where_category :: "list_query \<Rightarrow> product \<Rightarrow> bool" where
  "where_category q p =
    (if truthy (q_category q) \<and> q_category q \<noteq> Some ''all'' then category p = q_category q else True)"

definition where_available :: "list_query \<Rightarrow> product \<Rightarrow> bool" where
  "where_available q p =
    (if q_available q \<noteq> None \<and> q_available q \<noteq> Some ''all''
     then available p = Some (q_available q = Some ''true'') else True)"

definition search_pattern :: "string \<Rightarrow> string" where
  "search_pattern search = ''%'' @ search @ ''%''"

definition where_search :: "list_query \<Rightarrow> product \<Rightarrow> bool option" where
  "where_search q p =
    (if truthy (q_search q) then
       (let pattern = search_pattern (the (q_search q)) in
        case (column_ilike (name p) pattern, column_ilike (original_name p) pattern,
              column_ilike (brand p) pattern, ilike (ean p) pattern) of
          (Some a, Some b, Some c, Some d) \<Rightarrow> Some (a \<or> b \<or> c \<or> d)
        | _ \<Rightarrow> None)
     else Some True)"

definition whereClause :: "list_query \<Rightarrow> product \<Rightarrow> bool" where
  "whereClause q p =
    (where_brand q p \<and> where_category q p \<and> where_available q p \<and> where_search q p = Some True)"

text \<open>\<open>order: [['brand', 'ASC'], ['name', 'ASC']]\<close>. Ascending order puts \<open>NULL\<close> after every
  text; texts are compared character by character.\<close>

definition nulls_last :: "string option \<Rightarrow> bool \<times> string" where
  "nulls_last v = (case v of None \<Rightarrow> (True, []) | Some s \<Rightarrow> (False, s))"

definition order_key :: "product \<Rightarrow> (bool \<times> string) \<times> (bool \<times> string)" where
  "order_key p = (nulls_last (brand p), nulls_last (name p))"

subsection \<open>Pagination\<close>

definition is_whitespace :: "char \<Rightarrow> bool" where
  "is_whitespace c = (c = CHR '' '' \<or> c = CHR 0x09 \<or> c = CHR 0x0A \<or> c = CHR 0x0B \<or> c = CHR 0x0C \<or> c = CHR 0x0D)"

definition is_digit :: "char \<Rightarrow> bool" where
  "is_digit c = (CHR ''0'' \<le> c \<and> c \<le> CHR ''9'')"

definition digit_value :: "char \<Rightarrow> int" where
  "digit_value c = int (of_char c) - 48"

text \<open>The double nearest to an integer. Up to \<open>2^53\<close> in magnitude every integer is a
  double. Beyond, a double keeps the 53 leading bits: the rest is rounded to the nearest, a tie
  to the even one, and a result of more than 1024 bits is infinite.\<close>

function bitlen :: "int \<Rightarrow> nat" where
  "bitlen n = (if n \<le> 0 then 0 else Suc (bitlen (n div 2)))"
  by pat_completeness auto
termination
  by (relation "measure nat") auto

declare bitlen.simps [simp del]

definition nearest_double :: "int \<Rightarrow> int" where
  "nearest_double m =
    (let k = bitlen m - 53; q = m div 2 ^ k; r = m mod 2 ^ k
     in if 2 * r < 2 ^ k \<or> (2 * r = 2 ^ k \<and> even q) then q * 2 ^ k else (q + 1) * 2 ^ k)"

definition to_double :: "int \<Rightarrow> jsnum" where
  "to_double n =
    (if abs n \<le> 2 ^ 53 then Fin n
     else
       let d = nearest_double (abs n) in
       if 1024 < bitlen d then (if n < 0 then NegInf else PosInf)
       else Fin (if n < 0 then - d else d))"

text \<open>\<open>parseInt(s, 10)\<close>: leading white space is skipped (the ASCII white space; the other
  Unicode spaces are not modelled), a sign is read, then the longest run of digits; no digit
  gives \<open>NaN\<close>. The result is the double nearest to the value of the digits.\<close>

definition parse_digits :: "string \<Rightarrow> jsnum" where
  "parse_digits s =
    (let ds = takeWhile is_digit s in
     if ds = [] then NaN else to_double (foldl (\<lambda>n c. 10 * n + digit_value c) 0 ds))"

fun js_negate :: "jsnum \<Rightarrow> jsnum" where
  "js_negate (Fin n) = Fin (- n)"
| "js_negate PosInf = NegInf"
| "js_negate NegInf = PosInf"
| "js_negate NaN = NaN"

definition parseInt :: "string \<Rightarrow> jsnum" where
  "parseInt s =
    (case dropWhile is_whitespace s of
       [] \<Rightarrow> NaN
     | c # cs \<Rightarrow>
         if c = CHR ''-'' then js_negate (parse_digits cs)
         else if c = CHR ''+'' then parse_digits cs
         else parse_digits (c # cs))"

fun js_minus_one :: "jsnum \<Rightarrow> jsnum" where
  "js_minus_one (Fin n) = to_double (n - 1)"
| "js_minus_one x = x"

fun js_times :: "jsnum \<Rightarrow> jsnum \<Rightarrow> jsnum" where
  "js_times (Fin a) (Fin b) = to_double (a * b)"
| "js_times NaN y = NaN"
| "js_times x NaN = NaN"
| "js_times (Fin a) PosInf = (if a = 0 then NaN else if 0 < a then PosInf else NegInf)"
| "js_times (Fin a) NegInf = (if a = 0 then NaN else if 0 < a then NegInf else PosInf)"
| "js_times PosInf (Fin b) = (if b = 0 then NaN else if 0 < b then PosInf else NegInf)"
| "js_times NegInf (Fin b) = (if b = 0 then NaN else if 0 < b then NegInf else PosInf)"
| "js_times PosInf PosInf = PosInf"
| "js_times PosInf NegInf = NegInf"
| "js_times NegInf PosInf = NegInf"
| "js_times NegInf NegInf = PosInf"

text \<open>\<open>Math.ceil(totalCount / limitNumber)\<close>, for a count and a number. The quotient is
  rounded to a double before \<open>Math.ceil\<close>; for a count below \<open>2^53\<close>, which a count of rows
  is, the ceiling of the rounded quotient is the ceiling of the exact one.\<close>

fun ceil_div :: "nat \<Rightarrow> jsnum \<Rightarrow> jsnum" where
  "ceil_div n (Fin l) =
    (if l = 0 then (if n = 0 then NaN else PosInf)
     else Fin (- ((- int n) div l)))"
| "ceil_div n NaN = NaN"
| "ceil_div n PosInf = Fin 0"
| "ceil_div n NegInf = Fin 0"

text \<open>\<open>LIMIT l OFFSET o\<close>: both are read as 64-bit integers. The store refuses a limit or
  an offset that is not numeric, that is out of the range of \<open>bigint\<close> (from \<open>2^63\<close> on) or
  that is negative.\<close>

definition bigint :: "int \<Rightarrow> bool" where
  "bigint n = (- (2 ^ 63) \<le> n \<and> n < 2 ^ 63)"

fun limit_offset :: "jsnum \<Rightarrow> jsnum \<Rightarrow> 'a list \<Rightarrow> exception + 'a list" where
  "limit_offset (Fin l) (Fin off) xs =
    (if \<not> bigint l \<or> \<not> bigint off then
       Inl (Exception ''SequelizeDatabaseError'' ''bigint out of range'')
     else if l < 0 then Inl (Exception ''SequelizeDatabaseError'' ''LIMIT must not be negative'')
     else if off < 0 then Inl (Exception ''SequelizeDatabaseError'' ''OFFSET must not be negative'')
     else Inr (take (nat l) (drop (nat off) xs)))"
| "limit_offset l off xs = Inl (Exception ''SequelizeDatabaseError'' ''syntax error'')"

subsection \<open>Reading handlers\<close>

definition optional_number :: "string option \<Rightarrow> jsnum option" where
  "optional_number v = (if truthy v then Some (parseInt (the v)) else None)"

text \<open>\<open>const offset = (pageNumber - 1) * limitNumber\<close>.\<close>

definition page_offset :: "jsnum \<Rightarrow> jsnum \<Rightarrow> jsnum" where
  "page_offset pageNumber limitNumber = js_times (js_minus_one pageNumber) limitNumber"

definition findAll :: "list_query \<Rightarrow> table \<Rightarrow> exception + product list" where
  "findAll q rows =
    (let ordered = sort_key order_key (filter (whereClause q) rows) in
     case (optional_number (q_page q), optional_number (q_limit q)) of
       (Some pageNumber, Some limitNumber) \<Rightarrow>
         limit_offset limitNumber (page_offset pageNumber limitNumber) ordered
     | _ \<Rightarrow> Inr ordered)"

definition count_rows :: "list_query \<Rightarrow> table \<Rightarrow> nat" where
  "count_rows q rows = length (filter (whereClause q) rows)"

definition getAllProducts :: "signer \<Rightarrow> env \<Rightarrow> table \<Rightarrow> list_query \<Rightarrow> response" where
  "getAllProducts sign e rows q =
    (let totalCount = count_rows q rows in
     case findAll q rows of
       Inl error \<Rightarrow> failure ''Error al obtener productos'' error
     | Inr products \<Rightarrow>
        (case with_image_urls sign e products of
           Inl error \<Rightarrow> failure ''Error al obtener productos'' error
         | Inr productsWithUrls \<Rightarrow>
            (case (optional_number (q_page q), optional_number (q_limit q)) of
               (Some pageNumber, Some limitNumber) \<Rightarrow>
                 respond 200 (JObj [(''success'', JBool True), (''data'', JArr productsWithUrls),
                   (''count'', JNum (Fin (int (length productsWithUrls)))),
                   (''pagination'', JObj [(''page'', JNum pageNumber), (''limit'', JNum limitNumber),
                      (''total'', JNum (Fin (int totalCount))),
                      (''totalPages'', JNum (ceil_div totalCount limitNumber))])])
             | _ \<Rightarrow>
                 respond 200 (JObj [(''success'', JBool True), (''data'', JArr productsWithUrls),
                   (''count'', JNum (Fin (int (length productsWithUrls))))]))))"

definition getProductById :: "signer \<Rightarrow> env \<Rightarrow> table \<Rightarrow> nat \<Rightarrow> response" where
  "getProductById sign e rows i =
    (case findByPk i rows of
       None \<Rightarrow> not_found
     | Some p \<Rightarrow>
        (case with_image_url sign e p of
           Inl error \<Rightarrow> failure ''Error al obtener producto'' error
         | Inr productData \<Rightarrow> respond 200 (JObj [(''success'', JBool True), (''data'', productData)])))"

text \<open>\<open>attributes: [c], group: [c], order: [[c, 'ASC']]\<close>: the distinct values of a column, in
  ascending order.\<close>

definition distinct_values :: "(product \<Rightarrow> string option) \<Rightarrow> table \<Rightarrow> string option list" where
  "distinct_values column rows = sort_key nulls_last (remdups (map column rows))"

definition getBrands :: "table \<Rightarrow> response" where
  "getBrands rows =
    (let brandList = distinct_values brand rows in
     respond 200 (JObj [(''success'', JBool True), (''data'', JArr (map json_opt brandList))]))"

definition getCategories :: "table \<Rightarrow> response" where
  "getCategories rows =
    (let categoryList = filter truthy (distinct_values category rows) in
     respond 200 (JObj [(''success'', JBool True), (''data'', JArr (map json_opt categoryList))]))"

subsection \<open>Writing handlers\<close>

text \<open>A key of the request body is absent, \<open>null\<close>, or has a value of the column's type. A key
  \<open>id\<close> in the body is not modelled, and the path parameter \<open>:id\<close> is taken as the number it
  denotes.\<close>

datatype 'a input = Absent | Null | Given 'a

record product_body =
  b_ean :: "string input"
  b_name :: "string input"
  b_original_name :: "string input"
  b_brand :: "string input"
  b_page :: "string input"
  b_url :: "string input"
  b_description :: "string input"
  b_category :: "string input"
  b_type :: "string input"
  b_variety :: "string input"
  b_image_filename :: "string input"
  b_available :: "bool input"
  b_comments :: "string input"

definition falsy :: "string input \<Rightarrow> bool" where
  "falsy v = (case v of Given s \<Rightarrow> s = [] | _ \<Rightarrow> True)"

text \<open>The value a new row takes from a key, and the value an existing column takes.\<close>

definition fresh :: "'a input \<Rightarrow> 'a option" where
  "fresh v = (case v of Given x \<Rightarrow> Some x | _ \<Rightarrow> None)"

definition merged :: "'a input \<Rightarrow> 'a option \<Rightarrow> 'a option" where
  "merged v old = (case v of Absent \<Rightarrow> old | Null \<Rightarrow> None | Given x \<Rightarrow> Some x)"

definition next_id :: "table \<Rightarrow> nat" where
  "next_id rows = Suc (fold max (map pid rows) 0)"

definition validation_error :: "string \<Rightarrow> exception" where
  "validation_error m = Exception ''SequelizeValidationError'' m"

definition unique_error :: exception where
  "unique_error = Exception ''SequelizeUniqueConstraintError'' ''Validation error''"

text \<open>\<open>Product.create(productData)\<close>: the model's validations (\<open>allowNull: false\<close> on \<open>ean\<close> and
  \<open>available\<close>, \<open>notEmpty\<close> on \<open>ean\<close>), the default of \<open>available\<close>, the unique index on
  \<open>ean\<close>, the automatic key (one above the largest key of the table).\<close>

definition Product_create :: "product_body \<Rightarrow> table \<Rightarrow> exception + product \<times> table" where
  "Product_create b rows =
    (case b_ean b of
       Absent \<Rightarrow> Inl (validation_error ''notNull Violation: Product.ean cannot be null'')
     | Null \<Rightarrow> Inl (validation_error ''notNull Violation: Product.ean cannot be null'')
     | Given e \<Rightarrow>
        if e = [] then Inl (validation_error ''Validation error: Validation notEmpty on ean failed'')
        else if b_available b = Null then
          Inl (validation_error ''notNull Violation: Product.available cannot be null'')
        else if list_ex (\<lambda>r. ean r = e) rows then Inl unique_error
        else
          let p = \<lparr>pid = next_id rows, ean = e, name = fresh (b_name b),
                   original_name = fresh (b_original_name b), brand = fresh (b_brand b),
                   page = fresh (b_page b), url = fresh (b_url b),
                   description = fresh (b_description b), category = fresh (b_category b),
                   ptype = fresh (b_type b), variety = fresh (b_variety b),
                   image_filename = fresh (b_image_filename b),
                   available = (case b_available b of Given v \<Rightarrow> Some v | _ \<Rightarrow> Some True),
                   comments = fresh (b_comments b)\<rparr>
          in Inr (p, rows @ [p]))"

definition createProduct :: "signer \<Rightarrow> env \<Rightarrow> table \<Rightarrow> product_body \<Rightarrow> response \<times> table" where
  "createProduct sign e rows b =
    (if falsy (b_ean b) \<or> falsy (b_name b) \<or> falsy (b_brand b) then
       (respond 400 (JObj [(''success'', JBool False),
          (''message'', JStr ''EAN, nombre y marca son campos requeridos'')]), rows)
     else
       (case Product_create b rows of
          Inl error \<Rightarrow>
            (if error_name error = ''SequelizeUniqueConstraintError'' then
               respond 400 (JObj [(''success'', JBool False),
                 (''message'', JStr ''Ya existe un producto con ese EAN'')])
             else failure ''Error al crear producto'' error, rows)
        | Inr (p, rows') \<Rightarrow>
           (case with_image_url sign e p of
              Inl error \<Rightarrow> (failure ''Error al crear producto'' error, rows')
            | Inr productDataWithUrl \<Rightarrow>
               (respond 201 (JObj [(''success'', JBool True),
                  (''message'', JStr ''Producto creado exitosamente''),
                  (''data'', productDataWithUrl)]), rows'))))"

text \<open>\<open>product.update(values)\<close>: the keys present are validated and merged into the row.\<close>

definition apply_body :: "product_body \<Rightarrow> product \<Rightarrow> product" where
  "apply_body b p =
    p\<lparr>ean := (case b_ean b of Given e \<Rightarrow> e | _ \<Rightarrow> ean p),
      name := merged (b_name b) (name p),
      original_name := merged (b_original_name b) (original_name p),
      brand := merged (b_brand b) (brand p),
      page := merged (b_page b) (page p),
      url := merged (b_url b) (url p),
      description := merged (b_description b) (description p),
      category := merged (b_category b) (category p),
      ptype := merged (b_type b) (ptype p),
      variety := merged (b_variety b) (variety p),
      image_filename := merged (b_image_filename b) (image_filename p),
      available := (case b_available b of Given v \<Rightarrow> Some v | _ \<Rightarrow> available p),
      comments := merged (b_comments b) (comments p)\<rparr>"

definition instance_update :: "product_body \<Rightarrow> product \<Rightarrow> table \<Rightarrow> exception + product \<times> table" where
  "instance_update b p rows =
    (if b_ean b = Null then Inl (validation_error ''notNull Violation: Product.ean cannot be null'')
     else if b_ean b = Given [] then
       Inl (validation_error ''Validation error: Validation notEmpty on ean failed'')
     else if b_available b = Null then
       Inl (validation_error ''notNull Violation: Product.available cannot be null'')
     else if list_ex (\<lambda>r. b_ean b = Given (ean r) \<and> pid r \<noteq> pid p) rows then Inl unique_error
     else Inr (apply_body b p, update_row (pid p) (apply_body b) rows))"

definition updateProduct :: "signer \<Rightarrow> env \<Rightarrow> table \<Rightarrow> nat \<Rightarrow> product_body \<Rightarrow> response \<times> table" where
  "updateProduct sign e rows i b =
    (case findByPk i rows of
       None \<Rightarrow> (not_found, rows)
     | Some product \<Rightarrow>
        (case instance_update b product rows of
           Inl error \<Rightarrow>
             (if error_name error = ''SequelizeUniqueConstraintError'' then
                respond 400 (JObj [(''success'', JBool False),
                  (''message'', JStr ''Ya existe un producto con ese EAN'')])
              else failure ''Error al actualizar producto'' error, rows)
         | Inr (p, rows') \<Rightarrow>
            (case with_image_url sign e p of
               Inl error \<Rightarrow> (failure ''Error al actualizar producto'' error, rows')
             | Inr productDataWithUrl \<Rightarrow>
                (respond 200 (JObj [(''success'', JBool True),
                   (''message'', JStr ''Producto actualizado exitosamente''),
                   (''data'', productDataWithUrl)]), rows'))))"

definition deleteProduct :: "table \<Rightarrow> nat \<Rightarrow> response \<times> table" where
  "deleteProduct rows i =
    (case findByPk i rows of
       None \<Rightarrow> (not_found, rows)
     | Some product \<Rightarrow>
        (respond 200 (JObj [(''success'', JBool True),
           (''message'', JStr ''Producto eliminado exitosamente'')]),
         filter (\<lambda>r. pid r \<noteq> i) rows))"

text \<open>\<open>!product.available\<close>: an empty value is falsy.\<close>

definition js_not :: "bool option \<Rightarrow> bool" where
  "js_not v = (case v of Some b \<Rightarrow> \<not> b | None \<Rightarrow> True)"

definition toggleAvailability :: "signer \<Rightarrow> env \<Rightarrow> table \<Rightarrow> nat \<Rightarrow> response \<times> table" where
  "toggleAvailability sign e rows i =
    (case findByPk i rows of
       None \<Rightarrow> (not_found, rows)
     | Some product \<Rightarrow>
        (let newAvailability = js_not (available product);
             p = product\<lparr>available := Some newAvailability\<rparr>;
             rows' = update_row i (\<lambda>r. r\<lparr>available := Some newAvailability\<rparr>) rows
         in case with_image_url sign e p of
              Inl error \<Rightarrow> (failure ''Error al cambiar disponibilidad'' error, rows')
            | Inr productData \<Rightarrow>
               (respond 200 (JObj [(''success'', JBool True),
                  (''message'', JStr (''Producto '' @
                     (if newAvailability then ''disponible'' else ''no disponible''))),
                  (''data'', productData)]), rows')))"

text \<open>\<open>comments || null\<close>.\<close>

definition or_null :: "string input \<Rightarrow> string option" where
  "or_null v = (case v of Given s \<Rightarrow> (if s = [] then None else Some s) | _ \<Rightarrow> None)"

definition updateComments :: "signer \<Rightarrow> env \<Rightarrow> table \<Rightarrow> nat \<Rightarrow> string input \<Rightarrow> response \<times> table" where
  "updateComments sign e rows i c =
    (case findByPk i rows of
       None \<Rightarrow> (not_found, rows)
     | Some product \<Rightarrow>
        (let p = product\<lparr>comments := or_null c\<rparr>;
             rows' = update_row i (\<lambda>r. r\<lparr>comments := or_null c\<rparr>) rows
         in case with_image_url sign e p of
              Inl error \<Rightarrow> (failure ''Error al actualizar comentarios'' error, rows')
            | Inr productData \<Rightarrow>
               (respond 200 (JObj [(''success'', JBool True),
                  (''message'', JStr ''Comentarios actualizados exitosamente''),
                  (''data'', productData)]), rows')))"

section \<open>Terms used in the statements\<close>

text \<open>The \<open>authenticated\<close> key of a response body, the keys of a body, and a key of its
  \<open>pagination\<close> block.\<close>

definition authenticated :: "response \<Rightarrow> json option" where
  "authenticated r = json_field (body r) ''authenticated''"

definition keys :: "json \<Rightarrow> string list" where
  "keys j = (case j of JObj kvs \<Rightarrow> map fst kvs | _ \<Rightarrow> [])"

definition pagination_field :: "response \<Rightarrow> string \<Rightarrow> json option" where
  "pagination_field r k = (case json_field (body r) ''pagination'' of Some j \<Rightarrow> json_field j k | None \<Rightarrow> None)"

text \<open>The image URL a product gets and the object the handlers send for it. Both are what
  \<open>with_image_url\<close> computes when the issuer resolves, which it always does
  (\<open>with_image_url_resolves\<close> below).\<close>

definition image_url :: "signer \<Rightarrow> env \<Rightarrow> product \<Rightarrow> string option" where
  "image_url sign e p =
    (case fst (getPresignedImageUrl sign e (Some (or_default (image_filename p) ''placeholder.webp'')) 3600) of
       Inr u \<Rightarrow> u | Inl error \<Rightarrow> None)"

definition productData :: "signer \<Rightarrow> env \<Rightarrow> product \<Rightarrow> json" where
  "productData sign e p = JObj (toJSON p @ [(''image_url'', json_opt (image_url sign e p))])"

text \<open>The rows a query matches, in the order of the \<open>order\<close> option, and page \<open>pg\<close> of size
  \<open>l\<close> of a list.\<close>

definition ordered_matches :: "list_query \<Rightarrow> table \<Rightarrow> product list" where
  "ordered_matches q rows = sort_key order_key (filter (whereClause q) rows)"

definition page_window :: "int \<Rightarrow> int \<Rightarrow> 'a list \<Rightarrow> 'a list" where
  "page_window pg l xs = take (nat l) (drop (nat ((pg - 1) * l)) xs)"

text \<open>Brand ascending, then name ascending: the relation between a row and every later row of a
  sorted result.\<close>

definition brand_then_name :: "product \<Rightarrow> product \<Rightarrow> bool" where
  "brand_then_name a b =
    (nulls_last (brand a) < nulls_last (brand b) \<or>
     brand a = brand b \<and> nulls_last (name a) \<le> nulls_last (name b))"

text \<open>A search term without the three characters that \<open>ILIKE\<close> reads specially.\<close>

definition plain :: "string \<Rightarrow> bool" where
  "plain s = list_all (\<lambda>c. c \<noteq> CHR ''%'' \<and> c \<noteq> CHR ''_'' \<and> c \<noteq> CHR 0x5C) s"

text \<open>The selection as the specification words it: a filter is skipped when absent or
  \<open>all\<close>, and a search term, when present, must be contained in one of four columns.\<close>

definition spec_selects :: "list_query \<Rightarrow> product \<Rightarrow> bool" where
  "spec_selects q p =
    ((q_brand q = None \<or> q_brand q = Some ''all'' \<or> brand p = q_brand q) \<and>
     (q_category q = None \<or> q_category q = Some ''all'' \<or> category p = q_category q) \<and>
     (q_available q = None \<or> q_available q = Some ''all'' \<or>
        available p = Some (q_available q = Some ''true'')) \<and>
     (case q_search q of
        None \<Rightarrow> True
      | Some s \<Rightarrow> column_contains_ci (name p) s \<or> column_contains_ci (original_name p) s \<or>
          column_contains_ci (brand p) s \<or> contains_ci (ean p) s))"

section \<open>Concrete inputs\<close>

definition failing_compare :: comparer where
  "failing_compare data hash = Inl CompareError"

definition accepting_compare :: comparer where
  "accepting_compare data hash = Inr (data = ''secreto'' \<and> hash = ''$2b$10$hash'')"

definition example_env :: env where
  "example_env = \<lparr>NODE_ENV = Some ''production'', FRONTEND_URL = None, BACKEND_URL = None,
     ACCESS_CODE_HASH = Some ''$2b$10$hash'', S3_BUCKET = Some ''lacosta''\<rparr>"

definition session_request :: request where
  "session_request = \<lparr>cookies = Some [(''auth_session'', ''secreto'')], access_code = None\<rparr>"

definition login_request :: request where
  "login_request = \<lparr>cookies = None, access_code = Some ''secreto''\<rparr>"

definition failing_sign :: signer where
  "failing_sign command = Inl (Exception ''NetworkingError'' ''getaddrinfo ENOTFOUND'')"

definition example_sign :: signer where
  "example_sign command = Inr (''https://'' @ Bucket command @ ''.s3.amazonaws.com/'' @ Key command)"

definition example_product :: product where
  "example_product = \<lparr>pid = 1, ean = ''7790001'', name = Some ''Yerba Mate'',
     original_name = None, brand = Some ''Taragui'', page = None, url = None, description = None,
     category = Some ''Infusiones'', ptype = None, variety = None, image_filename = None,
     available = Some True, comments = None\<rparr>"

definition arcor_product :: product where
  "arcor_product = \<lparr>pid = 2, ean = ''7790580'', name = Some ''Bon o Bon'',
     original_name = Some ''BON O BON 30G'', brand = Some ''Arcor'', page = None, url = None,
     description = None, category = Some ''Golosinas'', ptype = None, variety = None,
     image_filename = Some ''bonobon.webp'', available = Some False, comments = None\<rparr>"

definition unbranded_product :: product where
  "unbranded_product = \<lparr>pid = 3, ean = ''7790999'', name = Some ''Azucar'',
     original_name = None, brand = None, page = None, url = None,
     description = None, category = None, ptype = None, variety = None,
     image_filename = None, available = Some True, comments = Some ''sin marca''\<rparr>"

definition example_table :: table where
  "example_table = [example_product, unbranded_product, arcor_product]"

definition numbered_product :: "nat \<Rightarrow> product" where
  "numbered_product n = example_product\<lparr>pid := n, ean := ''779000'' @ [char_of (65 + n)]\<rparr>"

definition twenty_five :: table where
  "twenty_five = map numbered_product [0..<25]"

definition no_filters :: list_query where
  "no_filters = \<lparr>q_brand = None, q_category = None, q_search = None, q_available = None,
     q_page = None, q_limit = None\<rparr>"

definition underscore_query :: list_query where
  "underscore_query = no_filters\<lparr>q_search := Some ''_''\<rparr>"

definition empty_brand_query :: list_query where
  "empty_brand_query = no_filters\<lparr>q_brand := Some []\<rparr>"

definition mate_query :: list_query where
  "mate_query = no_filters\<lparr>q_search := Some ''MATE''\<rparr>"

definition second_page :: list_query where
  "second_page = no_filters\<lparr>q_page := Some ''2'', q_limit := Some ''10''\<rparr>"

definition zero_limit :: list_query where
  "zero_limit = no_filters\<lparr>q_page := Some ''1'', q_limit := Some ''0''\<rparr>"

definition negative_limit :: list_query where
  "negative_limit = no_filters\<lparr>q_page := Some ''1'', q_limit := Some ''-1''\<rparr>"

definition huge_limit :: list_query where
  "huge_limit = no_filters\<lparr>q_page := Some ''1'', q_limit := Some ''9223372036854775808''\<rparr>"

definition example_body :: product_body where
  "example_body = \<lparr>b_ean = Given ''7791234'', b_name = Given ''Galletitas'', b_original_name = Absent,
     b_brand = Given ''Bagley'', b_page = Absent, b_url = Absent, b_description = Null,
     b_category = Given ''Galletitas'', b_type = Absent, b_variety = Absent,
     b_image_filename = Absent, b_available = Absent, b_comments = Absent\<rparr>"

definition created_product :: product where
  "created_product = \<lparr>pid = 4, ean = ''7791234'', name = Some ''Galletitas'',
     original_name = None, brand = Some ''Bagley'', page = None, url = None,
     description = None, category = Some ''Galletitas'', ptype = None, variety = None,
     image_filename = None, available = Some True, comments = None\<rparr>"

section \<open>Access gate\<close>

text \<open>The four-branch reading of claim C1 fails where the comparison itself reports an error:
  the gate answers 500 there, not 401.\<close>

theorem requireAuth_four_branch_counterexample:
  "gate_status (requireAuth failing_compare example_env session_request) = Some 500 \<and>
   gate_spec failing_compare example_env session_request = Some 401"
  by (simp add: requireAuth_def gate_spec_def gate_status_def failing_compare_def example_env_def
      session_request_def auth_session_def truthy_def respond_def)

text \<open>Claim C1, amended. For every protected request the gate has five branches. Without a
  session cookie, or with an empty one, it answers 401. Otherwise, without a stored hash (absent
  or empty), it answers 500. Otherwise, when the comparison reports an error, it answers 500.
  Otherwise, when the comparison reports no match, it answers 401. Otherwise the request
  proceeds; and it proceeds only then.\<close>

theorem requireAuth_five_branches:
  "gate_status (requireAuth compare e req) =
    (if \<not> truthy (auth_session req) then Some 401
     else if \<not> truthy (ACCESS_CODE_HASH e) then Some 500
     else (case compare (the (auth_session req)) (the (ACCESS_CODE_HASH e)) of
             Inl err \<Rightarrow> Some 500
           | Inr isMatch \<Rightarrow> if isMatch then None else Some 401)) \<and>
   (requireAuth compare e req = Next \<longleftrightarrow>
      truthy (auth_session req) \<and> truthy (ACCESS_CODE_HASH e) \<and>
      compare (the (auth_session req)) (the (ACCESS_CODE_HASH e)) = Inr True)"
  by (auto simp: requireAuth_def gate_status_def respond_def Let_def split: sum.splits)

theorem requireAuth_five_branches_witness:
  "gate_status (requireAuth accepting_compare example_env session_request) = None \<and>
   requireAuth accepting_compare example_env session_request = Next \<and>
   gate_status (requireAuth accepting_compare example_env \<lparr>cookies = Some [], access_code = None\<rparr>) = Some 401"
  using requireAuth_five_branches [of accepting_compare example_env session_request]
    requireAuth_five_branches [of accepting_compare example_env "\<lparr>cookies = Some [], access_code = None\<rparr>"]
  by (simp add: accepting_compare_def example_env_def session_request_def auth_session_def truthy_def gate_status_def)

section \<open>Authentication check\<close>

text \<open>Claim C10. \<open>checkAuth\<close> always answers 200. Its \<open>authenticated\<close> key is true exactly when
  the cookie is present, the hash is configured and the comparison reports a match; it is false
  in every other case, the \<open>catch\<close> clause included. With a cookie and no configured hash the
  gate answers 500, and so does login with an access code and no configured hash.\<close>

theorem checkAuth_never_fails:
  "status (checkAuth compare e req) = 200 \<and>
   authenticated (checkAuth compare e req) =
     Some (JBool (truthy (auth_session req) \<and> truthy (ACCESS_CODE_HASH e) \<and>
       compare (the (auth_session req)) (the (ACCESS_CODE_HASH e)) = Inr True)) \<and>
   status (checkAuth_catch (Inl x)) = 200 \<and>
   authenticated (checkAuth_catch (Inl x)) = Some (JBool False) \<and>
   (truthy (auth_session req) \<and> \<not> truthy (ACCESS_CODE_HASH e) \<longrightarrow>
      gate_status (requireAuth compare e req) = Some 500) \<and>
   (truthy (access_code req) \<and> \<not> truthy (ACCESS_CODE_HASH e) \<longrightarrow>
      status (verifyAccessCode compare e req) = 500 \<and>
      status (verifyAccessCode_cfg hostname compare e req) = 500)"
  by (auto simp: checkAuth_def checkAuth_try_def checkAuth_catch_def not_authenticated_def
      respond_def authenticated_def json_field_def Let_def requireAuth_def gate_status_def
      verifyAccessCode_def verifyAccessCode_cfg_def split: sum.splits)

theorem checkAuth_never_fails_witness:
  "status (checkAuth accepting_compare example_env session_request) = 200 \<and>
   authenticated (checkAuth accepting_compare example_env session_request) = Some (JBool True) \<and>
   authenticated (checkAuth failing_compare example_env session_request) = Some (JBool False) \<and>
   gate_status (requireAuth accepting_compare (example_env\<lparr>ACCESS_CODE_HASH := None\<rparr>) session_request) = Some 500 \<and>
   authenticated (checkAuth accepting_compare (example_env\<lparr>ACCESS_CODE_HASH := None\<rparr>) session_request) = Some (JBool False) \<and>
   status (verifyAccessCode accepting_compare (example_env\<lparr>ACCESS_CODE_HASH := None\<rparr>) login_request) = 500 \<and>
   authenticated (checkAuth accepting_compare (example_env\<lparr>ACCESS_CODE_HASH := None\<rparr>) login_request) = Some (JBool False)"
  using checkAuth_never_fails [of accepting_compare example_env session_request]
    checkAuth_never_fails [of failing_compare example_env session_request]
    checkAuth_never_fails [of accepting_compare "example_env\<lparr>ACCESS_CODE_HASH := None\<rparr>" session_request]
    checkAuth_never_fails [of accepting_compare "example_env\<lparr>ACCESS_CODE_HASH := None\<rparr>" login_request]
  by (simp add: accepting_compare_def failing_compare_def example_env_def session_request_def
      login_request_def auth_session_def truthy_def)

section \<open>Logout\<close>

text \<open>Claim C5, on the first text of the controller: login sets the cookie with \<open>httpOnly\<close>,
  \<open>secure\<close>, \<open>sameSite\<close> and \<open>maxAge\<close>; logout clears it with no attribute at all.\<close>

theorem logout_clears_without_attributes:
  "set_attributes (cookie_ops (verifyAccessCode accepting_compare example_env login_request)) =
     Some \<lparr>httpOnly = Some True, secure = Some True, sameSite = Some ''strict'', path = None,
           maxAge = Some 86400000\<rparr> \<and>
   clear_attributes (cookie_ops (logout example_env session_request)) =
     Some \<lparr>httpOnly = None, secure = None, sameSite = None, path = None, maxAge = None\<rparr>"
  by (simp add: verifyAccessCode_def logout_def accepting_compare_def example_env_def
      login_request_def truthy_def no_options_def)

text \<open>The second text of the controller clears the cookie with the attributes it was set with.\<close>

lemma logout_cfg_same_attributes:
  "set_attributes (cookie_ops (verifyAccessCode_cfg hostname compare e req)) = Some opts \<Longrightarrow>
   clear_attributes (cookie_ops (logout_cfg hostname e req')) = Some opts"
  by (auto simp: verifyAccessCode_cfg_def logout_cfg_def respond_def split: if_splits sum.splits)

section \<open>Image URL issuer\<close>

lemma getPresignedImageUrl_resolves:
  "\<exists>r. fst (getPresignedImageUrl sign e f t) = Inr r"
  by (auto simp: getPresignedImageUrl_def Let_def split: sum.splits)

lemma with_image_url_resolves:
  "with_image_url sign e p = Inr (productData sign e p)"
  using getPresignedImageUrl_resolves [of sign e "Some (or_default (image_filename p) ''placeholder.webp'')" 3600]
  by (auto simp: with_image_url_def productData_def image_url_def Let_def split: sum.splits)

lemma with_image_urls_resolves:
  "with_image_urls sign e ps = Inr (map (productData sign e) ps)"
  by (induction ps) (simp_all add: with_image_url_resolves)

text \<open>Claim C4. Without a file name (absent or empty) or without a configured bucket the issuer
  returns \<open>null\<close> and makes no call to the object-store client. Otherwise, when the signing call
  throws, it returns \<open>null\<close> after that one call. Its promise is never rejected, and a product
  that exists is answered with 200 whatever the signing call does.\<close>

theorem getPresignedImageUrl_degrades:
  "(\<not> truthy f \<or> \<not> truthy (S3_BUCKET e) \<longrightarrow> getPresignedImageUrl sign e f t = (Inr None, [])) \<and>
   (truthy f \<and> truthy (S3_BUCKET e) \<and>
    sign \<lparr>Bucket = the (S3_BUCKET e), Key = the f, expiresIn = t\<rparr> = Inl x \<longrightarrow>
      getPresignedImageUrl sign e f t =
        (Inr None, [\<lparr>Bucket = the (S3_BUCKET e), Key = the f, expiresIn = t\<rparr>])) \<and>
   (\<exists>r. fst (getPresignedImageUrl sign e f t) = Inr r) \<and>
   (findByPk i rows = Some p \<longrightarrow> status (getProductById sign e rows i) = 200)"
  by (auto simp: getPresignedImageUrl_def BUCKET_NAME_def or_default_def truthy_def Let_def
      getProductById_def with_image_url_resolves respond_def
      split: sum.splits option.splits)

theorem getPresignedImageUrl_degrades_witness:
  "getPresignedImageUrl failing_sign example_env None 3600 = (Inr None, []) \<and>
   getPresignedImageUrl failing_sign example_env (Some []) 3600 = (Inr None, []) \<and>
   getPresignedImageUrl example_sign (example_env\<lparr>S3_BUCKET := None\<rparr>) (Some ''a.webp'') 3600 =
     (Inr None, []) \<and>
   getPresignedImageUrl failing_sign example_env (Some ''missing.webp'') 3600 =
     (Inr None, [\<lparr>Bucket = ''lacosta'', Key = ''missing.webp'', expiresIn = 3600\<rparr>]) \<and>
   status (getProductById failing_sign example_env example_table 2) = 200"
proof -
  have f: "findByPk 2 example_table = Some arcor_product"
    by (simp add: findByPk_def example_table_def example_product_def unbranded_product_def
        arcor_product_def)
  show ?thesis
    using getPresignedImageUrl_degrades [of None example_env failing_sign 3600 undefined 2 example_table arcor_product]
      getPresignedImageUrl_degrades [of "Some []" example_env failing_sign 3600 undefined 2 example_table arcor_product]
      getPresignedImageUrl_degrades [of "Some ''a.webp''" "example_env\<lparr>S3_BUCKET := None\<rparr>" example_sign 3600]
      getPresignedImageUrl_degrades [of "Some ''missing.webp''" example_env failing_sign 3600
        "Exception ''NetworkingError'' ''getaddrinfo ENOTFOUND''" 2 example_table arcor_product]
      f
    by (simp add: truthy_def example_env_def failing_sign_def)
qed

section \<open>Rows and their updates\<close>

lemma findByPk_update_row:
  assumes "\<And>r. pid (f r) = pid r"
  shows "findByPk i (update_row j f rows) =
    (if i = j then map_option f (findByPk i rows) else findByPk i rows)"
  using assms by (induction rows) (auto simp: findByPk_def update_row_def)

lemma toggleAvailability_table:
  "findByPk i rows = Some p \<Longrightarrow>
   snd (toggleAvailability sign e rows i) = update_row i (\<lambda>r. r\<lparr>available := Some (js_not (available p))\<rparr>) rows"
  by (simp add: toggleAvailability_def Let_def with_image_url_resolves)

text \<open>Claim C6. For a product that exists and whose \<open>available\<close> is a boolean,
  \<open>toggleAvailability\<close> answers 200 and stores the negated value, leaving the rest of the row as
  it was; a second call restores the row.\<close>

theorem toggleAvailability_involution:
  assumes "findByPk i rows = Some p" and "available p = Some a"
  shows "findByPk i (snd (toggleAvailability sign e rows i)) = Some (p\<lparr>available := Some (\<not> a)\<rparr>) \<and>
    findByPk i (snd (toggleAvailability sign e (snd (toggleAvailability sign e rows i)) i)) = Some p \<and>
    status (fst (toggleAvailability sign e rows i)) = 200"
proof -
  let ?rows1 = "snd (toggleAvailability sign e rows i)"
  have t1: "?rows1 = update_row i (\<lambda>r. r\<lparr>available := Some (\<not> a)\<rparr>) rows"
    using assms by (simp add: toggleAvailability_table js_not_def)
  have f1: "findByPk i ?rows1 = Some (p\<lparr>available := Some (\<not> a)\<rparr>)"
    using assms(1) by (simp add: t1 findByPk_update_row)
  have t2: "snd (toggleAvailability sign e ?rows1 i) = update_row i (\<lambda>r. r\<lparr>available := Some a\<rparr>) ?rows1"
    using f1 by (simp add: toggleAvailability_table js_not_def)
  have f2: "findByPk i (snd (toggleAvailability sign e ?rows1 i)) = Some (p\<lparr>available := Some a\<rparr>)"
    using f1 by (simp add: t2 findByPk_update_row)
  have "p\<lparr>available := Some a\<rparr> = p" using assms(2) by simp
  moreover have "status (fst (toggleAvailability sign e rows i)) = 200"
    using assms(1) by (simp add: toggleAvailability_def Let_def with_image_url_resolves respond_def)
  ultimately show ?thesis using f1 f2 by simp
qed

theorem toggleAvailability_involution_witness:
  "findByPk 2 example_table = Some arcor_product \<and> available arcor_product = Some False \<and>
   findByPk 2 (snd (toggleAvailability example_sign example_env example_table 2)) =
     Some (arcor_product\<lparr>available := Some True\<rparr>) \<and>
   findByPk 2 (snd (toggleAvailability example_sign example_env
     (snd (toggleAvailability example_sign example_env example_table 2)) 2)) = Some arcor_product"
proof -
  have f: "findByPk 2 example_table = Some arcor_product"
    by (simp add: findByPk_def example_table_def example_product_def unbranded_product_def
        arcor_product_def)
  have a: "available arcor_product = Some False" by (simp add: arcor_product_def)
  show ?thesis
    using toggleAvailability_involution [OF f a, of example_sign example_env] f a by simp
qed

text \<open>Claim C7. For a product that exists, \<open>updateComments\<close> with the empty string, with no
  \<open>comments\<close> key or with \<open>null\<close> stores \<open>NULL\<close>; a non-empty text is stored as given.\<close>

theorem updateComments_normalizes:
  assumes "findByPk i rows = Some p"
  shows "findByPk i (snd (updateComments sign e rows i (Given []))) = Some (p\<lparr>comments := None\<rparr>) \<and>
    findByPk i (snd (updateComments sign e rows i Absent)) = Some (p\<lparr>comments := None\<rparr>) \<and>
    findByPk i (snd (updateComments sign e rows i Null)) = Some (p\<lparr>comments := None\<rparr>) \<and>
    (s \<noteq> [] \<longrightarrow> findByPk i (snd (updateComments sign e rows i (Given s))) = Some (p\<lparr>comments := Some s\<rparr>))"
  using assms
  by (simp add: updateComments_def Let_def with_image_url_resolves findByPk_update_row or_null_def)

theorem updateComments_normalizes_witness:
  "findByPk 3 example_table = Some unbranded_product \<and>
   comments unbranded_product = Some ''sin marca'' \<and>
   findByPk 3 (snd (updateComments example_sign example_env example_table 3 (Given []))) =
     Some (unbranded_product\<lparr>comments := None\<rparr>) \<and>
   findByPk 3 (snd (updateComments example_sign example_env example_table 3 Absent)) =
     Some (unbranded_product\<lparr>comments := None\<rparr>) \<and>
   findByPk 3 (snd (updateComments example_sign example_env example_table 3 (Given ''agotado''))) =
     Some (unbranded_product\<lparr>comments := Some ''agotado''\<rparr>)"
proof -
  have f: "findByPk 3 example_table = Some unbranded_product"
    by (simp add: findByPk_def example_table_def example_product_def unbranded_product_def
        arcor_product_def)
  show ?thesis
    using updateComments_normalizes [OF f, of example_sign example_env "''agotado''"] f
    by (simp add: unbranded_product_def)
qed

subsection \<open>The invariant of column available\<close>

lemma available_not_null_update_row:
  assumes "available_not_null rows" and "\<And>r. available r \<noteq> None \<Longrightarrow> available (f r) \<noteq> None"
  shows "available_not_null (update_row i f rows)"
  using assms by (induction rows) (auto simp: available_not_null_def update_row_def)

lemma Product_create_available:
  assumes "Product_create b rows = Inr (p, rows')"
  shows "available p = Some (case b_available b of Given v \<Rightarrow> v | _ \<Rightarrow> True) \<and> rows' = rows @ [p]"
  using assms by (auto simp: Product_create_def Let_def split: input.splits if_splits)

lemma createProduct_cases:
  "snd (createProduct sign e rows b) = rows \<or>
   (\<exists>p. Product_create b rows = Inr (p, rows @ [p]) \<and> snd (createProduct sign e rows b) = rows @ [p])"
  by (auto simp: createProduct_def with_image_url_resolves dest: Product_create_available split: sum.splits)

lemma createProduct_preserves:
  assumes "available_not_null rows"
  shows "available_not_null (snd (createProduct sign e rows b))"
  using createProduct_cases [of sign e rows b] assms
  by (auto simp: available_not_null_def dest: Product_create_available)

lemma apply_body_available:
  "b_available b \<noteq> Null \<Longrightarrow> available r \<noteq> None \<Longrightarrow> available (apply_body b r) \<noteq> None"
  by (cases "b_available b") (simp_all add: apply_body_def)

lemma updateProduct_preserves:
  assumes "available_not_null rows"
  shows "available_not_null (snd (updateProduct sign e rows i b))"
proof (cases "findByPk i rows")
  case None
  then show ?thesis using assms by (simp add: updateProduct_def)
next
  case (Some p)
  show ?thesis
  proof (cases "instance_update b p rows")
    case (Inl err)
    then show ?thesis using Some assms by (simp add: updateProduct_def)
  next
    case (Inr pr)
    then have nn: "b_available b \<noteq> Null" and pr: "pr = (apply_body b p, update_row (pid p) (apply_body b) rows)"
      by (auto simp: instance_update_def split: if_splits)
    have "available_not_null (update_row (pid p) (apply_body b) rows)"
      using assms nn by (intro available_not_null_update_row) (auto simp: apply_body_available)
    then show ?thesis using Some Inr pr
      by (simp add: updateProduct_def with_image_url_resolves)
  qed
qed

lemma toggleAvailability_preserves:
  assumes "available_not_null rows"
  shows "available_not_null (snd (toggleAvailability sign e rows i))"
proof (cases "findByPk i rows")
  case None
  then show ?thesis using assms by (simp add: toggleAvailability_def)
next
  case (Some p)
  then show ?thesis using assms
    by (simp add: toggleAvailability_table available_not_null_update_row)
qed

lemma Product_create_example:
  "Product_create example_body example_table = Inr (created_product, example_table @ [created_product])"
  by (simp add: Product_create_def example_body_def example_table_def example_product_def
      unbranded_product_def arcor_product_def created_product_def next_id_def fresh_def Let_def)

text \<open>Claim C8. A product created without an \<open>available\<close> key has \<open>available = true\<close>, and
  \<open>createProduct\<close>, \<open>updateProduct\<close> and \<open>toggleAvailability\<close> keep every row's \<open>available\<close>
  a boolean: a \<open>null\<close> in the request is refused by the model's \<open>allowNull: false\<close>.\<close>

theorem available_never_null:
  "(b_available b = Absent \<and> Product_create b rows = Inr (p, rows') \<longrightarrow> available p = Some True) \<and>
   (available_not_null rows \<longrightarrow>
      available_not_null (snd (createProduct sign e rows b)) \<and>
      available_not_null (snd (updateProduct sign e rows i b)) \<and>
      available_not_null (snd (toggleAvailability sign e rows i)))"
  using createProduct_preserves updateProduct_preserves toggleAvailability_preserves
  by (auto dest: Product_create_available)

theorem available_never_null_witness:
  "b_available example_body = Absent \<and>
   Product_create example_body example_table = Inr (created_product, example_table @ [created_product]) \<and>
   available created_product = Some True \<and>
   available_not_null example_table \<and>
   available_not_null (snd (createProduct example_sign example_env example_table example_body)) \<and>
   available_not_null (snd (updateProduct example_sign example_env example_table 2
     (example_body\<lparr>b_available := Given True\<rparr>))) \<and>
   available_not_null (snd (toggleAvailability example_sign example_env example_table 2))"
proof -
  have a: "b_available example_body = Absent" by (simp add: example_body_def)
  have i: "available_not_null example_table"
    by (auto simp: available_not_null_def example_table_def example_product_def
        unbranded_product_def arcor_product_def)
  show ?thesis
    using available_never_null [of example_body example_table created_product
        "example_table @ [created_product]" example_sign example_env 2]
      available_never_null [of "example_body\<lparr>b_available := Given True\<rparr>" example_table created_product
        "example_table @ [created_product]" example_sign example_env 2]
      a i Product_create_example
    by (simp add: created_product_def)
qed

section \<open>The store's pattern matching\<close>

lemma lower_append: "lower (a @ b) = lower a @ lower b"
  by (simp add: lower_def)

lemma lower_percent: "lower ''%'' = ''%''"
  by (simp add: lower_def lower_char_def)

lemma lower_search_pattern: "lower (search_pattern s) = ''%'' @ lower s @ ''%''"
  unfolding search_pattern_def lower_append lower_percent ..

lemma like_tokens_percent_end: "like_tokens (s @ ''%'') \<noteq> None"
proof (induction s rule: like_tokens.induct)
  case 1
  then show ?case by simp
next
  case (2 c cs)
  show ?case
  proof (cases cs)
    case Nil
    then show ?thesis by simp
  next
    case (Cons d ds)
    then show ?thesis using 2 by auto
  qed
qed

lemma search_pattern_accepted: "like_tokens (lower (search_pattern s)) \<noteq> None"
  unfolding lower_search_pattern append_assoc [symmetric] by (rule like_tokens_percent_end)

lemma ilike_defined: "ilike txt (search_pattern s) \<noteq> None"
  using search_pattern_accepted [of s] by (auto simp: ilike_def)

lemma column_ilike_defined: "column_ilike col (search_pattern s) \<noteq> None"
  using search_pattern_accepted [of s]
  by (cases col) (auto simp: column_ilike_def ilike_def)

lemma where_search_value:
  assumes "truthy (q_search q)"
  shows "where_search q p = Some
    (column_ilike (name p) (search_pattern (the (q_search q))) = Some True \<or>
     column_ilike (original_name p) (search_pattern (the (q_search q))) = Some True \<or>
     column_ilike (brand p) (search_pattern (the (q_search q))) = Some True \<or>
     ilike (ean p) (search_pattern (the (q_search q))) = Some True)"
proof -
  let ?pat = "search_pattern (the (q_search q))"
  obtain a where a: "column_ilike (name p) ?pat = Some a"
    using column_ilike_defined [of "name p" "the (q_search q)"] by auto
  obtain b where b: "column_ilike (original_name p) ?pat = Some b"
    using column_ilike_defined [of "original_name p" "the (q_search q)"] by auto
  obtain c where c: "column_ilike (brand p) ?pat = Some c"
    using column_ilike_defined [of "brand p" "the (q_search q)"] by auto
  obtain d where d: "ilike (ean p) ?pat = Some d"
    using ilike_defined [of "ean p" "the (q_search q)"] by auto
  show ?thesis using assms by (simp add: where_search_def a b c d)
qed

lemma where_search_defined: "where_search q p \<noteq> None"
proof (cases "truthy (q_search q)")
  case True
  then show ?thesis by (simp add: where_search_value)
next
  case False
  then show ?thesis by (simp add: where_search_def)
qed

lemma like_tokens_plain:
  "plain s \<Longrightarrow> like_tokens r = Some ts \<Longrightarrow> like_tokens (s @ r) = Some (map Lit s @ ts)"
  by (induction s) (auto simp: plain_def)

lemma like_match_any: "like_match [AnyText] t"
  by (induction t) simp_all

lemma like_match_prefix: "like_match (map Lit s @ [AnyText]) t = is_prefix s t"
proof (induction s arbitrary: t)
  case Nil
  then show ?case by (simp add: like_match_any)
next
  case (Cons c cs)
  then show ?case by (cases t) auto
qed

lemma like_match_includes:
  "like_match (AnyText # map Lit s @ [AnyText]) t = includes_str t s"
proof (induction t)
  case Nil
  have "like_match (map Lit s @ [AnyText]) [] = is_prefix s []" by (rule like_match_prefix)
  then show ?case by (cases s) simp_all
next
  case (Cons d ds)
  have "like_match (map Lit s @ [AnyText]) (d # ds) = is_prefix s (d # ds)" by (rule like_match_prefix)
  then show ?case using Cons by simp
qed

lemma lower_char_plain:
  assumes "c \<noteq> CHR ''%''" "c \<noteq> CHR ''_''" "c \<noteq> CHR 0x5C"
  shows "lower_char c \<noteq> CHR ''%'' \<and> lower_char c \<noteq> CHR ''_'' \<and> lower_char c \<noteq> CHR 0x5C"
proof (cases "CHR ''A'' \<le> c \<and> c \<le> CHR ''Z''")
  case False
  then have "lower_char c = c" by (auto simp: lower_char_def)
  then show ?thesis using assms by simp
next
  case True
  then have r: "65 \<le> (of_char c :: nat)" "(of_char c :: nat) \<le> 90"
    by (simp_all add: less_eq_char_def)
  have "(of_char (lower_char c) :: nat) = of_char c + 32"
    using True r by (simp add: lower_char_def)
  then have "97 \<le> (of_char (lower_char c) :: nat)" using r by simp
  then show ?thesis by auto
qed

lemma plain_lower: "plain s \<Longrightarrow> plain (lower s)"
  by (induction s) (auto simp: plain_def lower_def lower_char_plain)

lemma ilike_plain:
  assumes "plain s"
  shows "ilike txt (search_pattern s) = Some (contains_ci txt s)"
proof -
  have "like_tokens (lower s @ ''%'') = Some (map Lit (lower s) @ [AnyText])"
    using like_tokens_plain [OF plain_lower [OF assms], of "''%''" "[AnyText]"] by simp
  then have "like_tokens (lower (search_pattern s)) = Some (AnyText # map Lit (lower s) @ [AnyText])"
    by (simp add: lower_search_pattern)
  then show ?thesis
    by (simp add: ilike_def contains_ci_def like_match_includes)
qed

section \<open>List query\<close>

lemma nulls_last_inj: "nulls_last a = nulls_last b \<longleftrightarrow> a = b"
  by (auto simp: nulls_last_def split: option.splits)

lemma order_key_le: "order_key a \<le> order_key b \<longleftrightarrow> brand_then_name a b"
proof -
  have "nulls_last (brand a) \<le> nulls_last (brand b) \<longleftrightarrow>
    nulls_last (brand a) < nulls_last (brand b) \<or> brand a = brand b"
    by (simp add: le_less nulls_last_inj)
  then show ?thesis
    unfolding order_key_def brand_then_name_def less_eq_prod_def by auto
qed

lemma ordered_matches_sorted: "sorted_wrt brand_then_name (ordered_matches q rows)"
proof -
  have "sorted (map order_key (ordered_matches q rows))"
    unfolding ordered_matches_def by (rule sorted_sort_key)
  then show ?thesis
    by (simp add: sorted_wrt_map order_key_le)
qed

lemma limit_offset_Inr:
  assumes "limit_offset l off ys = Inr xs"
  shows "\<exists>a b. xs = take a (drop b ys)"
proof (cases l)
  case l: (Fin a)
  show ?thesis
  proof (cases off)
    case (Fin b)
    then have "xs = take (nat a) (drop (nat b) ys)"
      using assms l by (simp split: if_splits)
    then show ?thesis by blast
  qed (use assms l in simp_all)
qed (use assms in simp_all)

lemma findAll_cases:
  assumes "findAll q rows = Inr xs"
  shows "xs = ordered_matches q rows \<or> (\<exists>l off. xs = take l (drop off (ordered_matches q rows)))"
proof (cases "optional_number (q_page q)")
  case None
  then show ?thesis using assms by (simp add: findAll_def ordered_matches_def)
next
  case p: (Some pn)
  show ?thesis
  proof (cases "optional_number (q_limit q)")
    case None
    then show ?thesis using assms p by (simp add: findAll_def ordered_matches_def)
  next
    case l: (Some ln)
    have "limit_offset ln (page_offset pn ln) (ordered_matches q rows) = Inr xs"
      using assms p l by (simp add: findAll_def ordered_matches_def)
    then show ?thesis by (blast dest: limit_offset_Inr)
  qed
qed

lemma findAll_sorted:
  assumes "findAll q rows = Inr xs"
  shows "sorted_wrt brand_then_name xs"
  using findAll_cases [OF assms] ordered_matches_sorted [of q rows]
  by (auto intro: sorted_wrt_take sorted_wrt_drop)

lemma findAll_subset:
  assumes "findAll q rows = Inr xs"
  shows "set xs \<subseteq> {p \<in> set rows. whereClause q p}"
proof -
  have "set (ordered_matches q rows) = {p \<in> set rows. whereClause q p}"
    by (auto simp: ordered_matches_def)
  then show ?thesis
    using findAll_cases [OF assms] by (auto dest: in_set_takeD in_set_dropD)
qed

lemma findAll_unpaginated:
  assumes "optional_number (q_page q) = None \<or> optional_number (q_limit q) = None"
  shows "findAll q rows = Inr (ordered_matches q rows)"
  using assms by (auto simp: findAll_def ordered_matches_def Let_def split: option.splits)

lemma getAllProducts_data:
  assumes "findAll q rows = Inr xs"
  shows "status (getAllProducts sign e rows q) = 200 \<and>
    json_field (body (getAllProducts sign e rows q)) ''success'' = Some (JBool True) \<and>
    json_field (body (getAllProducts sign e rows q)) ''data'' = Some (JArr (map (productData sign e) xs)) \<and>
    json_field (body (getAllProducts sign e rows q)) ''count'' = Some (JNum (Fin (int (length xs))))"
  using assms
  by (auto simp: getAllProducts_def with_image_urls_resolves Let_def respond_def json_field_def
      split: option.splits)

lemma getAllProducts_failure:
  assumes "findAll q rows = Inl x"
  shows "status (getAllProducts sign e rows q) = 500"
  using assms by (simp add: getAllProducts_def Let_def failure_def respond_def)

lemma whereClause_iff:
  "whereClause q p \<longleftrightarrow>
    (q_brand q = None \<or> q_brand q = Some [] \<or> q_brand q = Some ''all'' \<or> brand p = q_brand q) \<and>
    (q_category q = None \<or> q_category q = Some [] \<or> q_category q = Some ''all'' \<or>
       category p = q_category q) \<and>
    (q_available q = None \<or> q_available q = Some ''all'' \<or>
       available p = Some (q_available q = Some ''true'')) \<and>
    (q_search q = None \<or> q_search q = Some [] \<or>
       column_ilike (name p) (''%'' @ the (q_search q) @ ''%'') = Some True \<or>
       column_ilike (original_name p) (''%'' @ the (q_search q) @ ''%'') = Some True \<or>
       column_ilike (brand p) (''%'' @ the (q_search q) @ ''%'') = Some True \<or>
       ilike (ean p) (''%'' @ the (q_search q) @ ''%'') = Some True)"
proof -
  have b: "where_brand q p \<longleftrightarrow>
    (q_brand q = None \<or> q_brand q = Some [] \<or> q_brand q = Some ''all'' \<or> brand p = q_brand q)"
    by (auto simp: where_brand_def truthy_def split: option.splits)
  have c: "where_category q p \<longleftrightarrow>
    (q_category q = None \<or> q_category q = Some [] \<or> q_category q = Some ''all'' \<or>
       category p = q_category q)"
    by (auto simp: where_category_def truthy_def split: option.splits)
  have a: "where_available q p \<longleftrightarrow>
    (q_available q = None \<or> q_available q = Some ''all'' \<or>
       available p = Some (q_available q = Some ''true''))"
    by (auto simp: where_available_def)
  have s: "where_search q p = Some True \<longleftrightarrow>
    (q_search q = None \<or> q_search q = Some [] \<or>
       column_ilike (name p) (''%'' @ the (q_search q) @ ''%'') = Some True \<or>
       column_ilike (original_name p) (''%'' @ the (q_search q) @ ''%'') = Some True \<or>
       column_ilike (brand p) (''%'' @ the (q_search q) @ ''%'') = Some True \<or>
       ilike (ean p) (''%'' @ the (q_search q) @ ''%'') = Some True)"
  proof (cases "truthy (q_search q)")
    case True
    then have "q_search q \<noteq> None" "q_search q \<noteq> Some []"
      by (auto simp: truthy_def split: option.splits)
    then show ?thesis using True
      by (auto simp: where_search_value search_pattern_def)
  next
    case False
    then have "q_search q = None \<or> q_search q = Some []"
      by (auto simp: truthy_def split: option.splits)
    then show ?thesis using False by (auto simp: where_search_def)
  qed
  show ?thesis unfolding whereClause_def b c a s ..
qed

lemma findAll_example:
  "findAll no_filters example_table = Inr [arcor_product, example_product, unbranded_product]"
  by code_simp

lemma findAll_mate: "findAll mate_query example_table = Inr [example_product]"
  by code_simp

text \<open>The selection of claim C2 fails on two queries over a table of one product. The search
  term \<open>_\<close> selects the product, none of whose columns contains an underscore; and an
  empty \<open>brand\<close> parameter puts no condition on the brand.\<close>

theorem list_filter_counterexample:
  "findAll underscore_query [example_product] = Inr [example_product] \<and>
   filter (spec_selects underscore_query) [example_product] = [] \<and>
   findAll empty_brand_query [example_product] = Inr [example_product] \<and>
   filter (spec_selects empty_brand_query) [example_product] = []"
  by code_simp

text \<open>Claim C2, amended. A row is selected exactly when: its brand equals the parameter, unless
  the parameter is absent, empty or \<open>all\<close>; the same for its category; its \<open>available\<close> equals
  the boolean read from the parameter (\<open>true\<close> for the text \<open>true\<close>, \<open>false\<close> for any other text),
  unless the parameter is absent or \<open>all\<close>; and, unless the search term is absent or empty, one
  of \<open>name\<close>, \<open>original_name\<close>, \<open>brand\<close>, \<open>ean\<close> matches the pattern \<open>%term%\<close> under the
  store's \<open>ILIKE\<close>. For a term without \<open>%\<close>, \<open>_\<close> and backslash that match is containment
  without regard to letter case. Without pagination the rows returned are exactly the selected
  ones; in every case the rows returned are selected rows, in order of brand ascending, then
  name ascending, and they are the \<open>data\<close> of the response.\<close>

theorem list_selection_and_order:
  "(whereClause q p \<longleftrightarrow>
      (q_brand q = None \<or> q_brand q = Some [] \<or> q_brand q = Some ''all'' \<or> brand p = q_brand q) \<and>
      (q_category q = None \<or> q_category q = Some [] \<or> q_category q = Some ''all'' \<or>
         category p = q_category q) \<and>
      (q_available q = None \<or> q_available q = Some ''all'' \<or>
         available p = Some (q_available q = Some ''true'')) \<and>
      (q_search q = None \<or> q_search q = Some [] \<or>
         column_ilike (name p) (''%'' @ the (q_search q) @ ''%'') = Some True \<or>
         column_ilike (original_name p) (''%'' @ the (q_search q) @ ''%'') = Some True \<or>
         column_ilike (brand p) (''%'' @ the (q_search q) @ ''%'') = Some True \<or>
         ilike (ean p) (''%'' @ the (q_search q) @ ''%'') = Some True)) \<and>
   (plain s \<longrightarrow> ilike txt (''%'' @ s @ ''%'') = Some (contains_ci txt s)) \<and>
   (optional_number (q_page q) = None \<or> optional_number (q_limit q) = None \<longrightarrow>
      (\<exists>ys. findAll q rows = Inr ys \<and> set ys = {r \<in> set rows. whereClause q r} \<and>
         length ys = length (filter (whereClause q) rows))) \<and>
   (findAll q rows = Inr xs \<longrightarrow>
      sorted_wrt brand_then_name xs \<and> set xs \<subseteq> {r \<in> set rows. whereClause q r} \<and>
      json_field (body (getAllProducts sign e rows q)) ''data'' =
        Some (JArr (map (productData sign e) xs)))"
proof (intro conjI impI)
  show "whereClause q p \<longleftrightarrow>
      (q_brand q = None \<or> q_brand q = Some [] \<or> q_brand q = Some ''all'' \<or> brand p = q_brand q) \<and>
      (q_category q = None \<or> q_category q = Some [] \<or> q_category q = Some ''all'' \<or>
         category p = q_category q) \<and>
      (q_available q = None \<or> q_available q = Some ''all'' \<or>
         available p = Some (q_available q = Some ''true'')) \<and>
      (q_search q = None \<or> q_search q = Some [] \<or>
         column_ilike (name p) (''%'' @ the (q_search q) @ ''%'') = Some True \<or>
         column_ilike (original_name p) (''%'' @ the (q_search q) @ ''%'') = Some True \<or>
         column_ilike (brand p) (''%'' @ the (q_search q) @ ''%'') = Some True \<or>
         ilike (ean p) (''%'' @ the (q_search q) @ ''%'') = Some True)"
    by (rule whereClause_iff)
next
  assume "plain s"
  then show "ilike txt (''%'' @ s @ ''%'') = Some (contains_ci txt s)"
    using ilike_plain [of s "txt"] by (simp add: search_pattern_def)
next
  assume "optional_number (q_page q) = None \<or> optional_number (q_limit q) = None"
  then have "findAll q rows = Inr (ordered_matches q rows)" by (rule findAll_unpaginated)
  moreover have "set (ordered_matches q rows) = {r \<in> set rows. whereClause q r}"
    by (auto simp: ordered_matches_def)
  moreover have "length (ordered_matches q rows) = length (filter (whereClause q) rows)"
    by (simp add: ordered_matches_def)
  ultimately show "\<exists>ys. findAll q rows = Inr ys \<and> set ys = {r \<in> set rows. whereClause q r} \<and>
         length ys = length (filter (whereClause q) rows)"
    by blast
next
  assume f: "findAll q rows = Inr xs"
  show "sorted_wrt brand_then_name xs" using f by (rule findAll_sorted)
  show "set xs \<subseteq> {r \<in> set rows. whereClause q r}" using f by (rule findAll_subset)
  show "json_field (body (getAllProducts sign e rows q)) ''data'' =
        Some (JArr (map (productData sign e) xs))"
    using getAllProducts_data [OF f] by simp
qed

theorem list_selection_and_order_witness:
  "findAll no_filters example_table = Inr [arcor_product, example_product, unbranded_product] \<and>
   sorted_wrt brand_then_name [arcor_product, example_product, unbranded_product] \<and>
   plain ''MATE'' \<and> ilike ''Yerba Mate'' ''%MATE%'' = Some (contains_ci ''Yerba Mate'' ''MATE'') \<and>
   contains_ci ''Yerba Mate'' ''MATE'' \<and>
   findAll mate_query example_table = Inr [example_product] \<and>
   set [example_product] = {r \<in> set example_table. whereClause mate_query r}"
proof -
  have p: "plain ''MATE''" by (simp add: plain_def)
  have c: "contains_ci ''Yerba Mate'' ''MATE''" by code_simp
  have u: "optional_number (q_page mate_query) = None"
    by (simp add: mate_query_def no_filters_def optional_number_def truthy_def)
  show ?thesis
    using list_selection_and_order [of no_filters example_product "''MATE''" "''Yerba Mate''"
        example_table "[arcor_product, example_product, unbranded_product]" example_sign example_env]
      list_selection_and_order [of mate_query example_product "''MATE''" "''Yerba Mate''"
        example_table "[example_product]" example_sign example_env]
      findAll_example findAll_mate p c u
    by auto
qed

section \<open>Pagination\<close>

lemma ceil_div_positive:
  "1 \<le> l \<Longrightarrow> ceil_div n (Fin l) = Fin \<lceil>real n / real_of_int l\<rceil>"
proof -
  assume "1 \<le> l"
  have "\<lceil>real n / real_of_int l\<rceil> = - \<lfloor>real_of_int (- int n) / real_of_int l\<rfloor>"
    by (simp add: ceiling_def)
  also have "\<dots> = - ((- int n) div l)"
    by (simp only: floor_divide_of_int_eq)
  finally show ?thesis using \<open>1 \<le> l\<close> by simp
qed

lemma to_double_exact: "abs n \<le> 2 ^ 53 \<Longrightarrow> to_double n = Fin n"
  by (simp add: to_double_def)

lemma page_offset_exact:
  assumes "1 \<le> pg" and "1 \<le> l" and "(pg - 1) * l \<le> 2 ^ 53"
  shows "page_offset (Fin pg) (Fin l) = Fin ((pg - 1) * l)"
proof -
  have "(pg - 1) * 1 \<le> (pg - 1) * l"
    using assms(1,2) by (intro mult_left_mono) simp_all
  then have "abs (pg - 1) \<le> 2 ^ 53" using assms(1,3) by simp
  then have "js_minus_one (Fin pg) = Fin (pg - 1)" by (simp add: to_double_exact)
  moreover have "abs ((pg - 1) * l) \<le> 2 ^ 53" using assms by simp
  ultimately show ?thesis by (simp add: page_offset_def to_double_exact)
qed

lemma getAllProducts_paginated:
  assumes "optional_number (q_page q) = Some (Fin pg)" and "optional_number (q_limit q) = Some (Fin l)"
    and "1 \<le> pg" and "1 \<le> l" and "l < 2 ^ 63" and "(pg - 1) * l \<le> 2 ^ 53"
  shows "getAllProducts sign e rows q =
    respond 200 (JObj [(''success'', JBool True),
      (''data'', JArr (map (productData sign e) (page_window pg l (ordered_matches q rows)))),
      (''count'', JNum (Fin (int (length (page_window pg l (ordered_matches q rows)))))),
      (''pagination'', JObj [(''page'', JNum (Fin pg)), (''limit'', JNum (Fin l)),
         (''total'', JNum (Fin (int (length (filter (whereClause q) rows))))),
         (''totalPages'', JNum (Fin \<lceil>real (length (filter (whereClause q) rows)) / real_of_int l\<rceil>))])])"
proof -
  have o: "page_offset (Fin pg) (Fin l) = Fin ((pg - 1) * l)"
    using assms(3,4,6) by (rule page_offset_exact)
  have nn: "0 \<le> (pg - 1) * l" using assms(3,4) by simp
  then have "\<not> (pg - 1) * l < 0" by (simp add: not_less)
  moreover have "bigint l" using assms(4,5) by (simp add: bigint_def)
  moreover have "bigint ((pg - 1) * l)" using nn assms(6) by (simp add: bigint_def)
  ultimately have "findAll q rows = Inr (page_window pg l (ordered_matches q rows))"
    using assms(1,2,4) by (simp add: findAll_def page_window_def ordered_matches_def o)
  then show ?thesis using assms
    by (simp add: getAllProducts_def with_image_urls_resolves count_rows_def ceil_div_positive
        Let_def del: ceil_div.simps)
qed

lemma parseInt_2: "parseInt ''2'' = Fin 2"
  by (simp add: parseInt_def parse_digits_def is_whitespace_def is_digit_def digit_value_def
      to_double_exact)

lemma parseInt_10: "parseInt ''10'' = Fin 10"
  by (simp add: parseInt_def parse_digits_def is_whitespace_def is_digit_def digit_value_def
      to_double_exact)

lemma whereClause_no_search:
  "q_brand q = None \<Longrightarrow> q_category q = None \<Longrightarrow> q_available q = None \<Longrightarrow> q_search q = None \<Longrightarrow>
   whereClause q p"
  by (simp add: whereClause_iff)

lemma second_page_all: "filter (whereClause second_page) rows = rows"
  by (simp add: whereClause_no_search second_page_def no_filters_def)

text \<open>Claim C3 fails outside a range of limits and offsets. With \<open>limit=0\<close> the
  \<open>totalPages\<close> sent is not a number (\<open>Math.ceil(1 / 0)\<close>). With \<open>limit=-1\<close>, and with
  \<open>limit=9223372036854775808\<close> (\<open>2^63\<close>), the store refuses the query and the response is a
  500 without a pagination block. With \<open>page=9007199254740994\<close> and \<open>limit=1\<close> the offset
  computed is \<open>2^53\<close>, one less than \<open>(page - 1) * limit\<close>.\<close>

theorem pagination_counterexample:
  "pagination_field (getAllProducts example_sign example_env [example_product] zero_limit) ''totalPages'' =
     Some (JNum PosInf) \<and>
   status (getAllProducts example_sign example_env [example_product] negative_limit) = 500 \<and>
   status (getAllProducts example_sign example_env [example_product] huge_limit) = 500 \<and>
   page_offset (parseInt ''9007199254740994'') (parseInt ''1'') = Fin 9007199254740992"
  by code_simp

text \<open>Claim C3, amended. When \<open>page\<close> and \<open>limit\<close> are supplied and read as integers
  with \<open>page \<ge> 1\<close>, \<open>1 \<le> limit < 2^63\<close> and \<open>(page - 1) * limit \<le> 2^53\<close>, the response is a
  200 whose \<open>data\<close> is the window of at most
  \<open>limit\<close> rows starting at offset \<open>(page - 1) * limit\<close> of the ordered matches, whose
  \<open>total\<close> is the number of rows matching the filters and whose \<open>totalPages\<close> is the ceiling
  of \<open>total / limit\<close>. With 25 matching rows, \<open>page=2\<close> and \<open>limit=10\<close> give 10 items,
  \<open>total = 25\<close> and \<open>totalPages = 3\<close>.\<close>

theorem pagination_window:
  "(optional_number (q_page q) = Some (Fin pg) \<and> optional_number (q_limit q) = Some (Fin l) \<and>
    1 \<le> pg \<and> 1 \<le> l \<and> l < 2 ^ 63 \<and> (pg - 1) * l \<le> 2 ^ 53 \<longrightarrow>
      status (getAllProducts sign e rows q) = 200 \<and>
      json_field (body (getAllProducts sign e rows q)) ''data'' =
        Some (JArr (map (productData sign e)
          (take (nat l) (drop (nat ((pg - 1) * l)) (ordered_matches q rows))))) \<and>
      length (take (nat l) (drop (nat ((pg - 1) * l)) (ordered_matches q rows))) \<le> nat l \<and>
      pagination_field (getAllProducts sign e rows q) ''total'' =
        Some (JNum (Fin (int (length (filter (whereClause q) rows))))) \<and>
      pagination_field (getAllProducts sign e rows q) ''totalPages'' =
        Some (JNum (Fin \<lceil>real (length (filter (whereClause q) rows)) / real_of_int l\<rceil>))) \<and>
   (q_page q = Some ''2'' \<and> q_limit q = Some ''10'' \<and> length (filter (whereClause q) rows) = 25 \<longrightarrow>
      (\<exists>items. json_field (body (getAllProducts sign e rows q)) ''data'' = Some (JArr items) \<and>
         length items = 10) \<and>
      pagination_field (getAllProducts sign e rows q) ''total'' = Some (JNum (Fin 25)) \<and>
      pagination_field (getAllProducts sign e rows q) ''totalPages'' = Some (JNum (Fin 3)))"
proof (intro conjI impI)
  assume h: "q_page q = Some ''2'' \<and> q_limit q = Some ''10'' \<and> length (filter (whereClause q) rows) = 25"
  then have n: "optional_number (q_page q) = Some (Fin 2)" "optional_number (q_limit q) = Some (Fin 10)"
    by (simp_all add: optional_number_def truthy_def parseInt_2 parseInt_10)
  have len: "length (ordered_matches q rows) = 25"
    using h by (simp add: ordered_matches_def)
  note r = getAllProducts_paginated [OF n, of sign e rows, simplified]
  show "\<exists>items. json_field (body (getAllProducts sign e rows q)) ''data'' = Some (JArr items) \<and>
         length items = 10"
    using len by (simp add: r respond_def json_field_def page_window_def)
  show "pagination_field (getAllProducts sign e rows q) ''total'' = Some (JNum (Fin 25))"
    using h by (simp add: r respond_def json_field_def pagination_field_def)
  have "\<lceil>(25::real) / 10\<rceil> = 3" by (simp add: ceiling_eq_iff)
  then show "pagination_field (getAllProducts sign e rows q) ''totalPages'' = Some (JNum (Fin 3))"
    using h by (simp add: r respond_def json_field_def pagination_field_def)
next
  assume h: "optional_number (q_page q) = Some (Fin pg) \<and> optional_number (q_limit q) = Some (Fin l) \<and>
    1 \<le> pg \<and> 1 \<le> l \<and> l < 2 ^ 63 \<and> (pg - 1) * l \<le> 2 ^ 53"
  then have r: "getAllProducts sign e rows q =
    respond 200 (JObj [(''success'', JBool True),
      (''data'', JArr (map (productData sign e) (page_window pg l (ordered_matches q rows)))),
      (''count'', JNum (Fin (int (length (page_window pg l (ordered_matches q rows)))))),
      (''pagination'', JObj [(''page'', JNum (Fin pg)), (''limit'', JNum (Fin l)),
         (''total'', JNum (Fin (int (length (filter (whereClause q) rows))))),
         (''totalPages'', JNum (Fin \<lceil>real (length (filter (whereClause q) rows)) / real_of_int l\<rceil>))])])"
    by (intro getAllProducts_paginated) simp_all
  show "status (getAllProducts sign e rows q) = 200" by (simp add: r respond_def)
  show "json_field (body (getAllProducts sign e rows q)) ''data'' =
        Some (JArr (map (productData sign e)
          (take (nat l) (drop (nat ((pg - 1) * l)) (ordered_matches q rows)))))"
    by (simp add: r respond_def json_field_def page_window_def)
  show "length (take (nat l) (drop (nat ((pg - 1) * l)) (ordered_matches q rows))) \<le> nat l"
    by simp
  show "pagination_field (getAllProducts sign e rows q) ''total'' =
        Some (JNum (Fin (int (length (filter (whereClause q) rows)))))"
    by (simp add: r respond_def json_field_def pagination_field_def)
  show "pagination_field (getAllProducts sign e rows q) ''totalPages'' =
        Some (JNum (Fin \<lceil>real (length (filter (whereClause q) rows)) / real_of_int l\<rceil>))"
    by (simp add: r respond_def json_field_def pagination_field_def)
qed

theorem pagination_window_witness:
  "optional_number (q_page second_page) = Some (Fin 2) \<and>
   optional_number (q_limit second_page) = Some (Fin 10) \<and>
   (10::int) < 2 ^ 63 \<and> (2 - 1) * 10 \<le> (2::int) ^ 53 \<and>
   length (filter (whereClause second_page) twenty_five) = 25 \<and>
   (\<exists>items. json_field (body (getAllProducts example_sign example_env twenty_five second_page)) ''data'' =
      Some (JArr items) \<and> length items = 10) \<and>
   pagination_field (getAllProducts example_sign example_env twenty_five second_page) ''total'' =
     Some (JNum (Fin 25)) \<and>
   pagination_field (getAllProducts example_sign example_env twenty_five second_page) ''totalPages'' =
     Some (JNum (Fin 3)) \<and>
   status (getAllProducts example_sign example_env twenty_five second_page) = 200"
proof -
  have n: "optional_number (q_page second_page) = Some (Fin 2)"
    "optional_number (q_limit second_page) = Some (Fin 10)"
    by (simp_all add: second_page_def no_filters_def optional_number_def truthy_def parseInt_2 parseInt_10)
  have q: "q_page second_page = Some ''2''" "q_limit second_page = Some ''10''"
    by (simp_all add: second_page_def)
  have l: "length (filter (whereClause second_page) twenty_five) = 25"
    by (simp add: second_page_all twenty_five_def)
  have s: "status (getAllProducts example_sign example_env twenty_five second_page) = 200"
    using pagination_window [of second_page 2 10 example_sign example_env twenty_five, THEN conjunct1] n
    by simp
  show ?thesis
    using pagination_window [of second_page 2 10 example_sign example_env twenty_five, THEN conjunct2]
      n q l s
    by simp
qed

section \<open>Response envelopes of the collections\<close>

text \<open>Claim C9 fails for the brands and the categories: their bodies have no \<open>count\<close> key.\<close>

theorem collection_count_counterexample:
  "json_field (body (getBrands [])) ''count'' = None \<and>
   json_field (body (getCategories [])) ''count'' = None"
  by (simp add: getBrands_def getCategories_def respond_def json_field_def distinct_values_def)

text \<open>Claim C9, amended. A successful product list carries \<open>success\<close>, \<open>data\<close> and a \<open>count\<close>
  equal to the number of items in \<open>data\<close>. The brands list and the categories list carry
  exactly \<open>success\<close> and \<open>data\<close>.\<close>

theorem collection_envelopes:
  "(status (getAllProducts sign e rows q) = 200 \<longrightarrow>
      (\<exists>items. json_field (body (getAllProducts sign e rows q)) ''success'' = Some (JBool True) \<and>
         json_field (body (getAllProducts sign e rows q)) ''data'' = Some (JArr items) \<and>
         json_field (body (getAllProducts sign e rows q)) ''count'' =
           Some (JNum (Fin (int (length items)))))) \<and>
   status (getBrands rows) = 200 \<and> keys (body (getBrands rows)) = [''success'', ''data''] \<and>
   status (getCategories rows) = 200 \<and> keys (body (getCategories rows)) = [''success'', ''data'']"
proof (intro conjI impI)
  assume ok: "status (getAllProducts sign e rows q) = 200"
  show "\<exists>items. json_field (body (getAllProducts sign e rows q)) ''success'' = Some (JBool True) \<and>
         json_field (body (getAllProducts sign e rows q)) ''data'' = Some (JArr items) \<and>
         json_field (body (getAllProducts sign e rows q)) ''count'' =
           Some (JNum (Fin (int (length items))))"
  proof (cases "findAll q rows")
    case (Inl x)
    then show ?thesis using ok getAllProducts_failure [of q rows x sign e] by simp
  next
    case (Inr xs)
    then show ?thesis using getAllProducts_data [of q rows xs sign e] by simp
  qed
qed (simp_all add: getBrands_def getCategories_def respond_def keys_def)

theorem collection_envelopes_witness:
  "status (getAllProducts example_sign example_env example_table no_filters) = 200 \<and>
   json_field (body (getAllProducts example_sign example_env example_table no_filters)) ''count'' =
     Some (JNum (Fin 3)) \<and>
   keys (body (getBrands example_table)) = [''success'', ''data''] \<and>
   json_field (body (getBrands example_table)) ''data'' =
     Some (JArr [JStr ''Arcor'', JStr ''Taragui'', JNull]) \<and>
   json_field (body (getCategories example_table)) ''data'' =
     Some (JArr [JStr ''Golosinas'', JStr ''Infusiones''])"
proof -
  have s: "status (getAllProducts example_sign example_env example_table no_filters) = 200"
    using getAllProducts_data [OF findAll_example] by simp
  have c: "json_field (body (getAllProducts example_sign example_env example_table no_filters)) ''count'' =
     Some (JNum (Fin 3))"
    using getAllProducts_data [OF findAll_example, of example_sign example_env] by simp
  have b: "json_field (body (getBrands example_table)) ''data'' =
     Some (JArr [JStr ''Arcor'', JStr ''Taragui'', JNull])"
    by code_simp
  have g: "json_field (body (getCategories example_table)) ''data'' =
     Some (JArr [JStr ''Golosinas'', JStr ''Infusiones''])"
    by code_simp
  show ?thesis
    using collection_envelopes [of example_sign example_env example_table no_filters] s c b g
    by simp
qed

end
